theory Spec2Isabelle
  imports Complex_Main "HOL-Library.Sublist"
begin

section \<open>JavaScript strings and values\<close>

text \<open>
  A JavaScript string is modelled as a \<open>string\<close>; one \<open>char\<close> stands for one code unit
  below 256. An optional parameter (\<open>environment?: string\<close>) is a \<open>string option\<close>, with
  \<open>None\<close> for \<open>undefined\<close>.
\<close>

text \<open>Truthiness of an optional string: \<open>undefined\<close> and the empty string are falsy.\<close>

fun truthy :: "string option \<Rightarrow> bool" where
  "truthy None = False"
| "truthy (Some s) = (s \<noteq> [])"

text \<open>\<open>x || d\<close> for an optional string \<open>x\<close> and a string \<open>d\<close>.\<close>

fun or_else :: "string option \<Rightarrow> string \<Rightarrow> string" where
  "or_else None d = d"
| "or_else (Some s) d = (if s \<noteq> [] then s else d)"

text \<open>\<open>String.prototype.split\<close> with a one-character separator.\<close>

primrec js_split :: "char \<Rightarrow> string \<Rightarrow> string list" where
  "js_split sep [] = [] # []"
| "js_split sep (c # cs) =
     (if c = sep then [] # js_split sep cs
      else (case js_split sep cs of [] \<Rightarrow> [c] # [] | l # ls \<Rightarrow> (c # l) # ls))"

text \<open>
  The white space that \<open>String.prototype.trim\<close> removes, among the code units below 256:
  TAB, LF, VT, FF, CR, SPACE and NBSP.
\<close>

definition isWhiteSpace :: "char \<Rightarrow> bool" where
  "isWhiteSpace c =
     (c \<in> set [CHR 0x09, CHR 0x0A, CHR 0x0B, CHR 0x0C, CHR 0x0D, CHR 0x20, CHR 0xA0])"

definition trim :: "string \<Rightarrow> string" where
  "trim s = rev (dropWhile isWhiteSpace (rev (dropWhile isWhiteSpace s)))"

definition startsWith :: "string \<Rightarrow> string \<Rightarrow> bool" where
  "startsWith s p = (take (length p) s = p)"

text \<open>\<open>s.includes(sub)\<close>: \<open>sub\<close> occurs in \<open>s\<close> at some position.\<close>

definition includes_str :: "string \<Rightarrow> string \<Rightarrow> bool" where
  "includes_str s sub =
     list_ex (\<lambda>i. take (length sub) (drop i s) = sub) [0 ..< Suc (length s)]"

section \<open>Errors\<close>

text \<open>
  An object literal such as \<open>{ projectDir, environment }\<close>: the keys in order, each with its
  value, \<open>None\<close> when the value is \<open>undefined\<close>.
\<close>

type_synonym err_context = "(string \<times> string option) list"

text \<open>
  The values that are thrown. \<open>BuildError\<close> and \<open>UploadError\<close> carry the message and the
  context object they are constructed with; \<open>Error\<close> is the built-in class; \<open>ZodError\<close> is
  what a schema's \<open>parse\<close> throws: its message, the list of issues that zod prints, is
  abbreviated to the name of the offending field; \<open>Foreign pio msg str\<close>
  is any other value thrown by a collaborator (a validator, the executor, a handler of
  another module): whether it is an instance of \<open>PlatformIOError\<close>, its \<open>message\<close> and its
  string conversion.
\<close>

datatype exn =
    BuildError string err_context
  | UploadError string err_context
  | Error string
  | ZodError string
  | Foreign bool string string

text \<open>
  \<open>error instanceof PlatformIOError\<close>. The class declarations are in utils/errors.ts;
  \<open>BuildError\<close> and \<open>UploadError\<close> are taken to extend \<open>PlatformIOError\<close>.
\<close>

fun instanceofPlatformIOError :: "exn \<Rightarrow> bool" where
  "instanceofPlatformIOError (BuildError m c) = True"
| "instanceofPlatformIOError (UploadError m c) = True"
| "instanceofPlatformIOError (Error m) = False"
| "instanceofPlatformIOError (ZodError m) = False"
| "instanceofPlatformIOError (Foreign pio m s) = pio"

fun instanceofBuildError :: "exn \<Rightarrow> bool" where
  "instanceofBuildError (BuildError m c) = True"
| "instanceofBuildError e = False"

text \<open>\<open>error.message\<close>.\<close>

fun message :: "exn \<Rightarrow> string" where
  "message (BuildError m c) = m"
| "message (UploadError m c) = m"
| "message (Error m) = m"
| "message (ZodError m) = m"
| "message (Foreign pio m s) = m"

text \<open>
  The string conversion in a template literal, \<open>`${error}`\<close>: the name alone when the
  message is empty, otherwise name, colon, message. The name of the two classes of
  utils/errors.ts is taken to be the name of the class.
\<close>

definition name_and_message :: "string \<Rightarrow> string \<Rightarrow> string" where
  "name_and_message nm m = (if m = [] then nm else nm @ '': '' @ m)"

fun toString :: "exn \<Rightarrow> string" where
  "toString (BuildError m c) = name_and_message ''BuildError'' m"
| "toString (UploadError m c) = name_and_message ''UploadError'' m"
| "toString (Error m) = name_and_message ''Error'' m"
| "toString (ZodError m) = name_and_message ''ZodError'' m"
| "toString (Foreign pio m s) = s"

section \<open>Effects: the trace of validator and executor calls\<close>

datatype validator = ProjectPath | EnvironmentName | SerialPort

text \<open>
  \<open>Validate v s ok\<close>: validator \<open>v\<close> was called on \<open>s\<close> and accepted it (\<open>ok\<close>) or not.
  \<open>Execute command args cwd timeout\<close>: one call of \<open>platformioExecutor.execute\<close>.
\<close>

datatype event =
    Validate validator string bool
  | Execute string "string list" string nat

text \<open>
  A computation yields the calls it made, in order, and either the value it returns or
  the value it throws.
\<close>

type_synonym 'a io = "event list \<times> (exn + 'a)"

definition io_return :: "'a \<Rightarrow> 'a io" where
  "io_return x = ([], Inr x)"

definition io_throw :: "exn \<Rightarrow> 'a io" where
  "io_throw e = ([], Inl e)"

definition io_bind :: "'a io \<Rightarrow> ('a \<Rightarrow> 'b io) \<Rightarrow> 'b io" where
  "io_bind m f =
     (case m of
        (tr, Inl e) \<Rightarrow> (tr, Inl e)
      | (tr, Inr x) \<Rightarrow> (case f x of (tr', r) \<Rightarrow> (tr @ tr', r)))"

text \<open>\<open>try { m } catch (error) { h error }\<close>.\<close>

definition io_try :: "'a io \<Rightarrow> (exn \<Rightarrow> 'a io) \<Rightarrow> 'a io" where
  "io_try m h =
     (case m of
        (tr, Inl e) \<Rightarrow> (case h e of (tr', r) \<Rightarrow> (tr @ tr', r))
      | (tr, Inr x) \<Rightarrow> (tr, Inr x))"

text \<open>The executor calls of a trace, and whether an event is one.\<close>

fun is_Execute :: "event \<Rightarrow> bool" where
  "is_Execute (Execute command args cwd t) = True"
| "is_Execute (Validate v s ok) = False"

definition executions :: "'a io \<Rightarrow> event list" where
  "executions m = filter is_Execute (fst m)"

section \<open>Collaborators\<close>

record CommandResult =
  stdout :: string
  stderr :: string
  exitCode :: int

text \<open>
  The functions that build.ts and upload.ts import from utils/validation.ts,
  utils/errors.ts and platformio.ts are parameters of the model:
  \<open>validateProjectPath\<close> returns the validated path or throws, the other two validators
  return a boolean, \<open>parseStderrErrors\<close> returns the diagnostic lines of a stderr text, and
  \<open>execute command args cwd timeout\<close> resolves to a \<open>CommandResult\<close> or throws.
\<close>

record env =
  validateProjectPath :: "string \<Rightarrow> exn + string"
  validateEnvironmentName :: "string \<Rightarrow> bool"
  validateSerialPort :: "string \<Rightarrow> bool"
  parseStderrErrors :: "string \<Rightarrow> string list"
  execute :: "string \<Rightarrow> string list \<Rightarrow> string \<Rightarrow> nat \<Rightarrow> exn + CommandResult"

definition call_validateProjectPath :: "env \<Rightarrow> string \<Rightarrow> string io" where
  "call_validateProjectPath E projectDir =
     (case validateProjectPath E projectDir of
        Inl e \<Rightarrow> ([Validate ProjectPath projectDir False], Inl e)
      | Inr validatedPath \<Rightarrow> ([Validate ProjectPath projectDir True], Inr validatedPath))"

definition call_validateEnvironmentName :: "env \<Rightarrow> string \<Rightarrow> bool io" where
  "call_validateEnvironmentName E environment =
     ([Validate EnvironmentName environment (validateEnvironmentName E environment)],
      Inr (validateEnvironmentName E environment))"

definition call_validateSerialPort :: "env \<Rightarrow> string \<Rightarrow> bool io" where
  "call_validateSerialPort E port =
     ([Validate SerialPort port (validateSerialPort E port)], Inr (validateSerialPort E port))"

definition call_execute ::
  "env \<Rightarrow> string \<Rightarrow> string list \<Rightarrow> string \<Rightarrow> nat \<Rightarrow> CommandResult io" where
  "call_execute E command args cwd t =
     ([Execute command args cwd t], execute E command args cwd t)"

text \<open>
  \<open>if (environment && !validateEnvironmentName(environment)) throw err\<close>: the validator
  is called only on a truthy value.
\<close>

definition check_environment :: "env \<Rightarrow> string option \<Rightarrow> (string \<Rightarrow> exn) \<Rightarrow> unit io" where
  "check_environment E environment err =
     (if truthy environment
      then io_bind (call_validateEnvironmentName E (the environment))
             (\<lambda>ok. if \<not> ok then io_throw (err (the environment)) else io_return ())
      else io_return ())"

definition check_port :: "env \<Rightarrow> string option \<Rightarrow> (string \<Rightarrow> exn) \<Rightarrow> unit io" where
  "check_port E port err =
     (if truthy port
      then io_bind (call_validateSerialPort E (the port))
             (\<lambda>ok. if \<not> ok then io_throw (err (the port)) else io_return ())
      else io_return ())"

section \<open>tools/build.ts\<close>

text \<open>
  The fields of \<open>BuildResult\<close> are \<open>success\<close>, \<open>environment\<close>, \<open>output\<close> and the optional
  \<open>errors\<close>; those of \<open>CleanResult\<close> are \<open>success\<close> and \<open>message\<close>.
\<close>

record BuildResult =
  build_success :: bool
  build_environment :: string
  build_output :: string
  build_errors :: "string list option"

record CleanResult =
  clean_success :: bool
  clean_message :: string

text \<open>\<open>if (environment) args.push('--environment', environment)\<close>.\<close>

definition push_environment :: "string list \<Rightarrow> string option \<Rightarrow> string list" where
  "push_environment args environment =
     (if truthy environment then args @ [''--environment'', the environment] else args)"

definition buildResult :: "env \<Rightarrow> string option \<Rightarrow> CommandResult \<Rightarrow> BuildResult" where
  "buildResult E environment result =
     (let success = (exitCode result = 0);
          errors = (if success then None else Some (parseStderrErrors E (stderr result)))
      in \<lparr>build_success = success, build_environment = or_else environment ''default'',
          build_output = stdout result, build_errors = errors\<rparr>)"

definition buildProject :: "env \<Rightarrow> string \<Rightarrow> string option \<Rightarrow> BuildResult io" where
  "buildProject E projectDir environment =
     io_bind (call_validateProjectPath E projectDir) (\<lambda>validatedPath.
     io_bind (check_environment E environment
               (\<lambda>e. BuildError (''Invalid environment name: '' @ e)
                      [(''environment'', environment)])) (\<lambda>_.
     io_try
       (let args = push_environment [] environment in
        io_bind (call_execute E ''run'' args validatedPath 600000) (\<lambda>result.
        io_return (buildResult E environment result)))
       (\<lambda>error.
          if instanceofPlatformIOError error
          then io_throw (BuildError (''Build failed: '' @ message error)
                           [(''projectDir'', Some projectDir), (''environment'', environment)])
          else io_throw (BuildError (''Failed to build project: '' @ toString error)
                           [(''projectDir'', Some projectDir),
                            (''environment'', environment)]))))"

definition cleanProject :: "env \<Rightarrow> string \<Rightarrow> CleanResult io" where
  "cleanProject E projectDir =
     io_bind (call_validateProjectPath E projectDir) (\<lambda>validatedPath.
     io_try
       (io_bind (call_execute E ''run'' [''--target'', ''clean''] validatedPath 60000) (\<lambda>result.
        let success = (exitCode result = 0) in
        if \<not> success
        then io_throw (BuildError (''Clean failed: '' @ stderr result)
                         [(''projectDir'', Some projectDir), (''stderr'', Some (stderr result))])
        else io_return \<lparr>clean_success = True,
                         clean_message = ''Successfully cleaned build artifacts''\<rparr>))
       (\<lambda>error.
          if instanceofBuildError error then io_throw error
          else io_throw (BuildError (''Failed to clean project: '' @ toString error)
                           [(''projectDir'', Some projectDir)])))"

definition buildTarget :: "env \<Rightarrow> string \<Rightarrow> string \<Rightarrow> string option \<Rightarrow> BuildResult io" where
  "buildTarget E projectDir target environment =
     io_bind (call_validateProjectPath E projectDir) (\<lambda>validatedPath.
     io_bind (check_environment E environment
               (\<lambda>e. BuildError (''Invalid environment name: '' @ e)
                      [(''environment'', environment)])) (\<lambda>_.
     io_try
       (let args = push_environment [''--target'', target] environment in
        io_bind (call_execute E ''run'' args validatedPath 600000) (\<lambda>result.
        io_return (buildResult E environment result)))
       (\<lambda>error.
          if instanceofPlatformIOError error
          then io_throw (BuildError (''Target '' @ [CHR 0x27] @ target @ [CHR 0x27]
                                      @ '' failed: '' @ message error)
                           [(''projectDir'', Some projectDir), (''target'', Some target),
                            (''environment'', environment)])
          else io_throw (BuildError (''Failed to build target '' @ [CHR 0x27] @ target
                                      @ [CHR 0x27] @ '': '' @ toString error)
                           [(''projectDir'', Some projectDir), (''target'', Some target),
                            (''environment'', environment)]))))"

text \<open>
  The loop of \<open>listTargets\<close> over the lines of stdout: \<open>targets\<close> is the array built so far.
\<close>

fun collect_targets :: "string list \<Rightarrow> string list \<Rightarrow> string list" where
  "collect_targets targets [] = targets"
| "collect_targets targets (line # lines) =
     (let trimmed = trim line in
      if trimmed \<noteq> [] \<and> \<not> startsWith trimmed ''Environment''
         \<and> \<not> includes_str trimmed '':''
      then collect_targets (targets @ [trimmed]) lines
      else collect_targets targets lines)"

definition listTargets :: "env \<Rightarrow> string \<Rightarrow> string option \<Rightarrow> string list io" where
  "listTargets E projectDir environment =
     io_bind (call_validateProjectPath E projectDir) (\<lambda>validatedPath.
     io_try
       (let args = push_environment [''--list-targets''] environment in
        io_bind (call_execute E ''run'' args validatedPath 30000) (\<lambda>result.
        if exitCode result \<noteq> 0
        then io_throw (BuildError ''Failed to list targets''
                         [(''projectDir'', Some projectDir), (''stderr'', Some (stderr result))])
        else io_return (collect_targets [] (js_split CHR 0x0A (stdout result)))))
       (\<lambda>error.
          if instanceofBuildError error then io_throw error
          else io_throw (BuildError (''Failed to list build targets: '' @ toString error)
                           [(''projectDir'', Some projectDir)])))"

section \<open>tools/upload.ts\<close>

text \<open>
  The fields of \<open>UploadResult\<close> are \<open>success\<close>, the optional \<open>port\<close>, \<open>output\<close> and the
  optional \<open>errors\<close>.
\<close>

record UploadResult =
  upload_success :: bool
  upload_port :: "string option"
  upload_output :: string
  upload_errors :: "string list option"

text \<open>\<open>args.slice(1)\<close>.\<close>

definition slice1 :: "string list \<Rightarrow> string list" where
  "slice1 args = drop 1 args"

definition uploadResult :: "env \<Rightarrow> string option \<Rightarrow> CommandResult \<Rightarrow> UploadResult" where
  "uploadResult E port result =
     (let success = (exitCode result = 0);
          errors = (if success then None else Some (parseStderrErrors E (stderr result)))
      in \<lparr>upload_success = success, upload_port = port,
          upload_output = stdout result, upload_errors = errors\<rparr>)"

definition uploadFirmware ::
  "env \<Rightarrow> string \<Rightarrow> string option \<Rightarrow> string option \<Rightarrow> UploadResult io" where
  "uploadFirmware E projectDir port environment =
     io_bind (call_validateProjectPath E projectDir) (\<lambda>validatedPath.
     io_bind (check_environment E environment
               (\<lambda>e. UploadError (''Invalid environment name: '' @ e)
                      [(''environment'', environment)])) (\<lambda>_.
     io_bind (check_port E port
               (\<lambda>p. UploadError (''Invalid serial port: '' @ p) [(''port'', port)])) (\<lambda>_.
     io_try
       (let args = [''run'', ''--target'', ''upload''];
            args = push_environment args environment;
            args = (if truthy port then args @ [''--upload-port'', the port] else args) in
        io_bind (call_execute E ''run'' (slice1 args) validatedPath 300000) (\<lambda>result.
        io_return (uploadResult E port result)))
       (\<lambda>error.
          if instanceofPlatformIOError error
          then io_throw (UploadError (''Upload failed: '' @ message error)
                           [(''projectDir'', Some projectDir), (''port'', port),
                            (''environment'', environment)])
          else io_throw (UploadError (''Failed to upload firmware: '' @ toString error)
                           [(''projectDir'', Some projectDir), (''port'', port),
                            (''environment'', environment)])))))"

definition uploadAndMonitor ::
  "env \<Rightarrow> string \<Rightarrow> string option \<Rightarrow> string option \<Rightarrow> UploadResult io" where
  "uploadAndMonitor E projectDir port environment =
     io_bind (call_validateProjectPath E projectDir) (\<lambda>validatedPath.
     io_bind (check_environment E environment
               (\<lambda>e. UploadError (''Invalid environment name: '' @ e)
                      [(''environment'', environment)])) (\<lambda>_.
     io_bind (check_port E port
               (\<lambda>p. UploadError (''Invalid serial port: '' @ p) [(''port'', port)])) (\<lambda>_.
     io_try
       (let args = [''run'', ''--target'', ''upload'', ''--target'', ''monitor''];
            args = push_environment args environment;
            args = (if truthy port
                    then (args @ [''--upload-port'', the port]) @ [''--monitor-port'', the port]
                    else args) in
        io_bind (call_execute E ''run'' (slice1 args) validatedPath 300000) (\<lambda>result.
        io_return (uploadResult E port result)))
       (\<lambda>error.
          if instanceofPlatformIOError error
          then io_throw (UploadError (''Upload and monitor failed: '' @ message error)
                           [(''projectDir'', Some projectDir), (''port'', port),
                            (''environment'', environment)])
          else io_throw (UploadError (''Failed to upload and monitor: '' @ toString error)
                           [(''projectDir'', Some projectDir), (''port'', port),
                            (''environment'', environment)])))))"

definition buildAndUpload ::
  "env \<Rightarrow> string \<Rightarrow> string option \<Rightarrow> string option \<Rightarrow> UploadResult io" where
  "buildAndUpload E projectDir port environment =
     uploadFirmware E projectDir port environment"

definition uploadFilesystem ::
  "env \<Rightarrow> string \<Rightarrow> string option \<Rightarrow> string option \<Rightarrow> UploadResult io" where
  "uploadFilesystem E projectDir port environment =
     io_bind (call_validateProjectPath E projectDir) (\<lambda>validatedPath.
     io_bind (check_environment E environment
               (\<lambda>e. UploadError (''Invalid environment name: '' @ e)
                      [(''environment'', environment)])) (\<lambda>_.
     io_bind (check_port E port
               (\<lambda>p. UploadError (''Invalid serial port: '' @ p) [(''port'', port)])) (\<lambda>_.
     io_try
       (let args = [''run'', ''--target'', ''uploadfs''];
            args = push_environment args environment;
            args = (if truthy port then args @ [''--upload-port'', the port] else args) in
        io_bind (call_execute E ''run'' (slice1 args) validatedPath 300000) (\<lambda>result.
        io_return (uploadResult E port result)))
       (\<lambda>error.
          if instanceofPlatformIOError error
          then io_throw (UploadError (''Filesystem upload failed: '' @ message error)
                           [(''projectDir'', Some projectDir), (''port'', port),
                            (''environment'', environment)])
          else io_throw (UploadError (''Failed to upload filesystem: '' @ toString error)
                           [(''projectDir'', Some projectDir), (''port'', port),
                            (''environment'', environment)])))))"

section \<open>types.ts: the parameter schemas\<close>

text \<open>
  The arguments of a tool call are a JSON value. A number is a \<open>real\<close>: the finite numbers
  that JSON can carry. An object is the list of its own properties, each key once.
\<close>

datatype json =
    JNull
  | JBool bool
  | JNumber real
  | JString string
  | JArray "json list"
  | JObject "(string \<times> json) list"

text \<open>
  The schema combinators that types.ts uses. A combinator takes the name of the field
  (for the error) and the value to parse, \<open>None\<close> when it is \<open>undefined\<close>, and returns the
  parsed value or the error that \<open>parse\<close> throws.
\<close>

definition z_string :: "string \<Rightarrow> json option \<Rightarrow> exn + string" where
  "z_string field v = (case v of Some (JString s) \<Rightarrow> Inr s | _ \<Rightarrow> Inl (ZodError field))"

text \<open>\<open>z.string().min(1)\<close>.\<close>

definition z_string_min1 :: "string \<Rightarrow> json option \<Rightarrow> exn + string" where
  "z_string_min1 field v =
     (case v of
        Some (JString s) \<Rightarrow> (if 1 \<le> length s then Inr s else Inl (ZodError field))
      | _ \<Rightarrow> Inl (ZodError field))"

definition z_number :: "string \<Rightarrow> json option \<Rightarrow> exn + real" where
  "z_number field v = (case v of Some (JNumber n) \<Rightarrow> Inr n | _ \<Rightarrow> Inl (ZodError field))"

text \<open>\<open>inner.optional()\<close>: \<open>undefined\<close> is accepted as it is.\<close>

definition z_optional :: "(string \<Rightarrow> json option \<Rightarrow> exn + 'a) \<Rightarrow> string \<Rightarrow> json option \<Rightarrow> exn + 'a option" where
  "z_optional inner field v =
     (case v of
        None \<Rightarrow> Inr None
      | Some j \<Rightarrow> (case inner field (Some j) of Inl e \<Rightarrow> Inl e | Inr x \<Rightarrow> Inr (Some x)))"

text \<open>\<open>inner.default(d)\<close> on an optional schema: \<open>undefined\<close> is replaced by \<open>d\<close>.\<close>

definition z_default :: "'a \<Rightarrow> (string \<Rightarrow> json option \<Rightarrow> exn + 'a option) \<Rightarrow> string \<Rightarrow> json option \<Rightarrow> exn + 'a" where
  "z_default d inner field v =
     (case v of
        None \<Rightarrow> Inr d
      | Some j \<Rightarrow> (case inner field (Some j) of
                     Inl e \<Rightarrow> Inl e
                   | Inr None \<Rightarrow> Inr d
                   | Inr (Some x) \<Rightarrow> Inr x))"

text \<open>
  \<open>z.record(z.string())\<close>: an object all of whose values are strings; a key \<open>__proto__\<close>
  is checked like the others and left out of the parsed record.
\<close>

fun string_entries :: "string \<Rightarrow> (string \<times> json) list \<Rightarrow> exn + (string \<times> string) list" where
  "string_entries field [] = Inr []"
| "string_entries field ((k, JString s) # kvs) =
     (case string_entries field kvs of
        Inl e \<Rightarrow> Inl e
      | Inr r \<Rightarrow> Inr (if k = ''__proto__'' then r else (k, s) # r))"
| "string_entries field ((k, j) # kvs) = Inl (ZodError field)"

definition z_record_string :: "string \<Rightarrow> json option \<Rightarrow> exn + (string \<times> string) list" where
  "z_record_string field v =
     (case v of Some (JObject kvs) \<Rightarrow> string_entries field kvs | _ \<Rightarrow> Inl (ZodError field))"

text \<open>\<open>z.object({...})\<close>: the input must be an object; its properties are then parsed.\<close>

definition z_object :: "json option \<Rightarrow> ((string \<Rightarrow> json option) \<Rightarrow> exn + 'a) \<Rightarrow> exn + 'a" where
  "z_object v props =
     (case v of Some (JObject kvs) \<Rightarrow> props (map_of kvs) | _ \<Rightarrow> Inl (ZodError ''object''))"

definition and_then :: "exn + 'a \<Rightarrow> ('a \<Rightarrow> exn + 'b) \<Rightarrow> exn + 'b" where
  "and_then r f = (case r of Inl e \<Rightarrow> Inl e | Inr x \<Rightarrow> f x)"

text \<open>
  The \<open>parse\<close> of each parameter schema. The parsed object is the tuple of its fields in
  the order of the schema.
\<close>

definition ListBoardsParamsSchema :: "json option \<Rightarrow> exn + string option" where
  "ListBoardsParamsSchema v = z_object v (\<lambda>obj. z_optional z_string ''filter'' (obj ''filter''))"

definition GetBoardInfoParamsSchema :: "json option \<Rightarrow> exn + string" where
  "GetBoardInfoParamsSchema v = z_object v (\<lambda>obj. z_string_min1 ''boardId'' (obj ''boardId''))"

type_synonym InitProjectParams =
  "string \<times> string option \<times> string \<times> (string \<times> string) list option"

definition InitProjectParamsSchema :: "json option \<Rightarrow> exn + InitProjectParams" where
  "InitProjectParamsSchema v = z_object v (\<lambda>obj.
     and_then (z_string_min1 ''board'' (obj ''board'')) (\<lambda>board.
     and_then (z_optional z_string ''framework'' (obj ''framework'')) (\<lambda>framework.
     and_then (z_string ''projectDir'' (obj ''projectDir'')) (\<lambda>projectDir.
     and_then (z_optional z_record_string ''platformOptions'' (obj ''platformOptions''))
       (\<lambda>platformOptions. Inr (board, framework, projectDir, platformOptions))))))"

definition BuildProjectParamsSchema :: "json option \<Rightarrow> exn + (string \<times> string option)" where
  "BuildProjectParamsSchema v = z_object v (\<lambda>obj.
     and_then (z_string_min1 ''projectDir'' (obj ''projectDir'')) (\<lambda>projectDir.
     and_then (z_optional z_string ''environment'' (obj ''environment'')) (\<lambda>env.
     Inr (projectDir, env))))"

definition CleanProjectParamsSchema :: "json option \<Rightarrow> exn + string" where
  "CleanProjectParamsSchema v =
     z_object v (\<lambda>obj. z_string_min1 ''projectDir'' (obj ''projectDir''))"

definition UploadFirmwareParamsSchema :: "json option \<Rightarrow> exn + (string \<times> string option \<times> string option)" where
  "UploadFirmwareParamsSchema v = z_object v (\<lambda>obj.
     and_then (z_string_min1 ''projectDir'' (obj ''projectDir'')) (\<lambda>projectDir.
     and_then (z_optional z_string ''port'' (obj ''port'')) (\<lambda>port.
     and_then (z_optional z_string ''environment'' (obj ''environment'')) (\<lambda>env.
     Inr (projectDir, port, env)))))"

definition UploadFilesystemParamsSchema :: "json option \<Rightarrow> exn + (string \<times> string option \<times> string option)" where
  "UploadFilesystemParamsSchema v = z_object v (\<lambda>obj.
     and_then (z_string_min1 ''projectDir'' (obj ''projectDir'')) (\<lambda>projectDir.
     and_then (z_optional z_string ''port'' (obj ''port'')) (\<lambda>port.
     and_then (z_optional z_string ''environment'' (obj ''environment'')) (\<lambda>env.
     Inr (projectDir, port, env)))))"

definition StartMonitorParamsSchema :: "json option \<Rightarrow> exn + (string option \<times> real option \<times> string option)" where
  "StartMonitorParamsSchema v = z_object v (\<lambda>obj.
     and_then (z_optional z_string ''port'' (obj ''port'')) (\<lambda>port.
     and_then (z_optional z_number ''baud'' (obj ''baud'')) (\<lambda>baud.
     and_then (z_optional z_string ''projectDir'' (obj ''projectDir'')) (\<lambda>projectDir.
     Inr (port, baud, projectDir)))))"

definition SearchLibrariesParamsSchema :: "json option \<Rightarrow> exn + (string \<times> real)" where
  "SearchLibrariesParamsSchema v = z_object v (\<lambda>obj.
     and_then (z_string_min1 ''query'' (obj ''query'')) (\<lambda>query.
     and_then (z_default 20 (z_optional z_number) ''limit'' (obj ''limit'')) (\<lambda>limit.
     Inr (query, limit))))"

definition InstallLibraryParamsSchema :: "json option \<Rightarrow> exn + (string \<times> string option \<times> string option)" where
  "InstallLibraryParamsSchema v = z_object v (\<lambda>obj.
     and_then (z_string_min1 ''library'' (obj ''library'')) (\<lambda>library.
     and_then (z_optional z_string ''projectDir'' (obj ''projectDir'')) (\<lambda>projectDir.
     and_then (z_optional z_string ''version'' (obj ''version'')) (\<lambda>version.
     Inr (library, projectDir, version)))))"

definition ListInstalledLibrariesParamsSchema :: "json option \<Rightarrow> exn + string option" where
  "ListInstalledLibrariesParamsSchema v =
     z_object v (\<lambda>obj. z_optional z_string ''projectDir'' (obj ''projectDir''))"

section \<open>index.ts: the handler of tool calls\<close>

text \<open>
  \<open>request.params\<close>: the name of the tool and its arguments, which may be absent.
\<close>

record request =
  name :: string
  arguments :: "json option"

datatype content_item = Text string

text \<open>The result of a tool call; \<open>isError\<close> is \<open>None\<close> when the field is absent.\<close>

record CallToolResult =
  content :: "content_item list"
  isError :: "bool option"

text \<open>
  What a handler returns: the result types of tools/build.ts and tools/upload.ts, or a
  value \<open>'r\<close> of a handler of another module.
\<close>

datatype 'r tool_value =
    BuildValue BuildResult
  | CleanValue CleanResult
  | UploadValue UploadResult
  | OtherValue 'r

text \<open>
  The handlers of tools/boards.ts, tools/devices.ts, tools/projects.ts, tools/monitor.ts
  and tools/libraries.ts, \<open>formatPlatformIOError\<close> of utils/errors.ts and the built-in
  \<open>JSON.stringify(value, null, 2)\<close> are parameters of the model.
\<close>

record 'r tools =
  listBoards :: "string option \<Rightarrow> 'r io"
  getBoardInfo :: "string \<Rightarrow> 'r io"
  listDevices :: "'r io"
  initProject :: "InitProjectParams \<Rightarrow> 'r io"
  startMonitor :: "string option \<Rightarrow> real option \<Rightarrow> string option \<Rightarrow> 'r io"
  searchLibraries :: "string \<Rightarrow> real \<Rightarrow> 'r io"
  installLibrary :: "string \<Rightarrow> string option \<times> string option \<Rightarrow> 'r io"
  listInstalledLibraries :: "string option \<Rightarrow> 'r io"
  formatPlatformIOError :: "exn \<Rightarrow> string"
  JSON_stringify :: "'r tool_value \<Rightarrow> string"

definition parsed :: "exn + 'a \<Rightarrow> 'a io" where
  "parsed r = ([], r)"

text \<open>\<open>return { content: [{ type: 'text', text: JSON.stringify(value, null, 2) }] }\<close>.\<close>

definition respond :: "'r tools \<Rightarrow> 'r tool_value \<Rightarrow> CallToolResult io" where
  "respond T v = io_return \<lparr>content = [Text (JSON_stringify T v)], isError = None\<rparr>"

text \<open>The body of the \<open>try\<close> block: the \<open>switch\<close> on the name of the tool.\<close>

definition dispatch :: "'r tools \<Rightarrow> env \<Rightarrow> request \<Rightarrow> CallToolResult io" where
  "dispatch T E req =
     (let nm = name req; args = arguments req in
      if nm = ''list_boards'' then
        io_bind (parsed (ListBoardsParamsSchema args)) (\<lambda>filter.
        io_bind (listBoards T filter) (\<lambda>boards. respond T (OtherValue boards)))
      else if nm = ''get_board_info'' then
        io_bind (parsed (GetBoardInfoParamsSchema args)) (\<lambda>boardId.
        io_bind (getBoardInfo T boardId) (\<lambda>board. respond T (OtherValue board)))
      else if nm = ''list_devices'' then
        io_bind (listDevices T) (\<lambda>devices. respond T (OtherValue devices))
      else if nm = ''init_project'' then
        io_bind (parsed (InitProjectParamsSchema args)) (\<lambda>params.
        io_bind (initProject T params) (\<lambda>result. respond T (OtherValue result)))
      else if nm = ''build_project'' then
        io_bind (parsed (BuildProjectParamsSchema args)) (\<lambda>(projectDir, env).
        io_bind (buildProject E projectDir env) (\<lambda>result. respond T (BuildValue result)))
      else if nm = ''clean_project'' then
        io_bind (parsed (CleanProjectParamsSchema args)) (\<lambda>projectDir.
        io_bind (cleanProject E projectDir) (\<lambda>result. respond T (CleanValue result)))
      else if nm = ''upload_firmware'' then
        io_bind (parsed (UploadFirmwareParamsSchema args)) (\<lambda>(projectDir, port, env).
        io_bind (uploadFirmware E projectDir port env) (\<lambda>result. respond T (UploadValue result)))
      else if nm = ''upload_filesystem'' then
        io_bind (parsed (UploadFilesystemParamsSchema args)) (\<lambda>(projectDir, port, env).
        io_bind (uploadFilesystem E projectDir port env) (\<lambda>result. respond T (UploadValue result)))
      else if nm = ''start_monitor'' then
        io_bind (parsed (StartMonitorParamsSchema args)) (\<lambda>(port, baud, projectDir).
        io_bind (startMonitor T port baud projectDir) (\<lambda>result. respond T (OtherValue result)))
      else if nm = ''search_libraries'' then
        io_bind (parsed (SearchLibrariesParamsSchema args)) (\<lambda>(query, limit).
        io_bind (searchLibraries T query limit) (\<lambda>libraries. respond T (OtherValue libraries)))
      else if nm = ''install_library'' then
        io_bind (parsed (InstallLibraryParamsSchema args)) (\<lambda>(library, projectDir, version).
        io_bind (installLibrary T library (projectDir, version))
          (\<lambda>result. respond T (OtherValue result)))
      else if nm = ''list_installed_libraries'' then
        io_bind (parsed (ListInstalledLibrariesParamsSchema args)) (\<lambda>projectDir.
        io_bind (listInstalledLibraries T projectDir)
          (\<lambda>libraries. respond T (OtherValue libraries)))
      else io_throw (Error (''Unknown tool: '' @ nm)))"

text \<open>The \<open>catch\<close> block: the error becomes a result marked \<open>isError: true\<close>.\<close>

definition error_result :: "'r tools \<Rightarrow> exn \<Rightarrow> CallToolResult" where
  "error_result T error =
     (let errorMessage = formatPlatformIOError T error in
      \<lparr>content = [Text (''Error: '' @ errorMessage)], isError = Some True\<rparr>)"

definition callTool :: "'r tools \<Rightarrow> env \<Rightarrow> request \<Rightarrow> CallToolResult io" where
  "callTool T E req = io_try (dispatch T E req) (\<lambda>error. io_return (error_result T error))"


section \<open>Properties of traces and results\<close>

text \<open>A supplied (truthy) environment or port is one its validator accepts.\<close>

definition path_ok :: "env \<Rightarrow> string \<Rightarrow> bool" where
  "path_ok E projectDir = (case validateProjectPath E projectDir of Inl e \<Rightarrow> False | Inr vp \<Rightarrow> True)"

definition env_ok :: "env \<Rightarrow> string option \<Rightarrow> bool" where
  "env_ok E env = (truthy env \<longrightarrow> validateEnvironmentName E (the env))"

definition port_ok :: "env \<Rightarrow> string option \<Rightarrow> bool" where
  "port_ok E port = (truthy port \<longrightarrow> validateSerialPort E (the port))"

text \<open>The part of an argument vector that a supplied environment or port contributes.\<close>

definition env_args :: "string option \<Rightarrow> string list" where
  "env_args env = (if truthy env then [''--environment'', the env] else [])"

definition upload_port_args :: "string option \<Rightarrow> string list" where
  "upload_port_args port = (if truthy port then [''--upload-port'', the port] else [])"

definition monitor_port_args :: "string option \<Rightarrow> string list" where
  "monitor_port_args port =
     (if truthy port then [''--upload-port'', the port, ''--monitor-port'', the port] else [])"

text \<open>The validator calls of a handler whose checks all pass.\<close>

definition env_events :: "string option \<Rightarrow> event list" where
  "env_events env = (if truthy env then [Validate EnvironmentName (the env) True] else [])"

definition port_events :: "string option \<Rightarrow> event list" where
  "port_events port = (if truthy port then [Validate SerialPort (the port) True] else [])"

text \<open>
  The common shape of \<open>buildProject\<close>, \<open>buildTarget\<close>, \<open>uploadFirmware\<close>, \<open>uploadAndMonitor\<close>
  and \<open>uploadFilesystem\<close>, written out by cases: the path is validated, then a supplied
  environment, then a supplied port; only then is the executor called, once, and its
  outcome is turned into the result by \<open>mk\<close>, an error it throws into \<open>wrap error\<close>.
\<close>

definition guarded_run ::
  "env \<Rightarrow> string \<Rightarrow> string option \<Rightarrow> string option \<Rightarrow> (string \<Rightarrow> exn) \<Rightarrow> (string \<Rightarrow> exn) \<Rightarrow>
   string list \<Rightarrow> nat \<Rightarrow> (exn \<Rightarrow> exn) \<Rightarrow> (CommandResult \<Rightarrow> 'a) \<Rightarrow> 'a io" where
  "guarded_run E projectDir env port env_err port_err args t wrap mk =
     (case validateProjectPath E projectDir of
        Inl e \<Rightarrow> ([Validate ProjectPath projectDir False], Inl e)
      | Inr vp \<Rightarrow>
          if truthy env \<and> \<not> validateEnvironmentName E (the env)
          then ([Validate ProjectPath projectDir True, Validate EnvironmentName (the env) False],
                Inl (env_err (the env)))
          else if truthy port \<and> \<not> validateSerialPort E (the port)
          then (Validate ProjectPath projectDir True # env_events env
                  @ [Validate SerialPort (the port) False],
                Inl (port_err (the port)))
          else (Validate ProjectPath projectDir True # env_events env @ port_events port
                  @ [Execute ''run'' args vp t],
                case execute E ''run'' args vp t of
                  Inl error \<Rightarrow> Inl (wrap error)
                | Inr result \<Rightarrow> Inr (mk result)))"

text \<open>The timeouts of the executor calls of a trace, in order.\<close>

fun timeouts :: "event list \<Rightarrow> nat list" where
  "timeouts [] = []"
| "timeouts (Execute command args cwd t # tr) = t # timeouts tr"
| "timeouts (Validate v s ok # tr) = timeouts tr"

text \<open>Some executor call of the trace resolved to the outcome \<open>result\<close>.\<close>

fun resolved :: "env \<Rightarrow> event list \<Rightarrow> CommandResult \<Rightarrow> bool" where
  "resolved E [] result = False"
| "resolved E (Execute command args cwd t # tr) result =
     (execute E command args cwd t = Inr result \<or> resolved E tr result)"
| "resolved E (Validate v s ok # tr) result = resolved E tr result"

text \<open>Among the events \<open>seen\<close>, one of the validators \<open>vs\<close> was called on \<open>s\<close> and accepted it.\<close>

fun accepted :: "event list \<Rightarrow> validator list \<Rightarrow> string \<Rightarrow> bool" where
  "accepted [] vs s = False"
| "accepted (Validate v s' ok # seen) vs s = ((v \<in> set vs \<and> s' = s \<and> ok) \<or> accepted seen vs s)"
| "accepted (Execute command args cwd t # seen) vs s = accepted seen vs s"

text \<open>
  The boundary between the validators and the executor, for a call with project directory
  \<open>projectDir\<close> and identifier inputs \<open>ids\<close> (each with the validators that may vouch for
  it): at every executor call of the trace, the working directory is the value that
  \<open>validateProjectPath\<close> returns for \<open>projectDir\<close>, and every identifier that is in the
  argument vector was accepted by one of its validators earlier in the trace. \<open>seen\<close> is
  the part of the trace already passed.
\<close>

fun boundary_respected ::
  "env \<Rightarrow> string \<Rightarrow> (validator list \<times> string) list \<Rightarrow> event list \<Rightarrow> event list \<Rightarrow> bool" where
  "boundary_respected E projectDir ids seen [] = True"
| "boundary_respected E projectDir ids seen (Validate v s ok # tr) =
     boundary_respected E projectDir ids (seen @ [Validate v s ok]) tr"
| "boundary_respected E projectDir ids seen (Execute command args cwd t # tr) =
     (validateProjectPath E projectDir = Inr cwd
      \<and> list_all (\<lambda>(vs, s). s \<in> set args \<longrightarrow> accepted seen vs s) ids
      \<and> boundary_respected E projectDir ids (seen @ [Execute command args cwd t]) tr)"

text \<open>The identifier input that a supplied environment is, with its validator.\<close>

definition environment_id :: "string option \<Rightarrow> (validator list \<times> string) list" where
  "environment_id env = (if truthy env then [([EnvironmentName], the env)] else [])"

text \<open>A target name, which any of the three validators may vouch for.\<close>

definition target_id :: "string \<Rightarrow> (validator list \<times> string) list" where
  "target_id target = [([ProjectPath, EnvironmentName, SerialPort], target)]"

text \<open>
  The list that \<open>listTargets\<close> is to return, in the words of its description: the trimmed
  lines of stdout that are not empty, do not start with \<open>Environment\<close> and do not contain
  a colon, in the order of stdout.
\<close>

definition target_lines :: "string \<Rightarrow> string list" where
  "target_lines out =
     filter (\<lambda>l. l \<noteq> [] \<and> \<not> prefix ''Environment'' l \<and> CHR '':'' \<notin> set l)
       (map trim (js_split CHR 0x0A out))"

text \<open>Two strings that differ at most in the case of their ASCII letters.\<close>

definition lower :: "char \<Rightarrow> char" where
  "lower c =
     (case map_of (zip ''ABCDEFGHIJKLMNOPQRSTUVWXYZ'' ''abcdefghijklmnopqrstuvwxyz'') c of
        None \<Rightarrow> c
      | Some l \<Rightarrow> l)"

definition same_modulo_case :: "string \<Rightarrow> string \<Rightarrow> bool" where
  "same_modulo_case a b = (map lower a = map lower b)"

text \<open>The names that the \<open>switch\<close> of the tool-call handler knows.\<close>

definition tool_names :: "string list" where
  "tool_names =
     [''list_boards'', ''get_board_info'', ''list_devices'', ''init_project'', ''build_project'',
      ''clean_project'', ''upload_firmware'', ''upload_filesystem'', ''start_monitor'',
      ''search_libraries'', ''install_library'', ''list_installed_libraries'']"


section \<open>A sample environment\<close>

text \<open>
  Concrete collaborators, on which the theorems below are instantiated.
\<close>

text \<open>
  Modelled from the spec: \<open>validateProjectPath\<close> of utils/validation.ts, which is not among
  the sources. A path is rejected when it is empty or contains a null byte or a shell
  metacharacter. The sample is simpler than the description in two respects: no root is
  configured, so every path with a \<open>..\<close> segment is rejected instead of being resolved
  against the root, and an accepted path is returned as it is, not normalised.
\<close>

definition shell_metachar :: "char \<Rightarrow> bool" where
  "shell_metachar c =
     (c \<in> set [CHR '';'', CHR ''|'', CHR ''&'', CHR ''$'', CHR 0x60, CHR ''<'', CHR ''>'',
                CHR 0x0A])"

definition sample_validateProjectPath :: "string \<Rightarrow> exn + string" where
  "sample_validateProjectPath p =
     (if p = [] \<or> CHR 0x00 \<in> set p \<or> list_ex shell_metachar p
         \<or> ''..'' \<in> set (js_split CHR ''/'' p)
      then Inl (Foreign True (''Invalid path: '' @ p) (''ValidationError: Invalid path: '' @ p))
      else Inr p)"

text \<open>
  Modelled from the spec: \<open>validateEnvironmentName\<close> of utils/validation.ts, which is not
  among the sources. An identifier is a non-empty string of letters, digits, hyphens,
  underscores and dots, of a bounded length (64 here).
\<close>

definition identifier_char :: "char \<Rightarrow> bool" where
  "identifier_char c =
     (let n = (of_char c :: nat) in
      (48 \<le> n \<and> n \<le> 57) \<or> (65 \<le> n \<and> n \<le> 90) \<or> (97 \<le> n \<and> n \<le> 122)
      \<or> c = CHR ''-'' \<or> c = CHR ''_'' \<or> c = CHR ''.'')"

definition sample_validateEnvironmentName :: "string \<Rightarrow> bool" where
  "sample_validateEnvironmentName s =
     (s \<noteq> [] \<and> length s \<le> 64 \<and> list_all identifier_char s)"

text \<open>
  Modelled from the spec: \<open>validateSerialPort\<close> of utils/validation.ts, which is not among
  the sources. A port has the shape of a device file (\<open>/dev/\<close> and a name of identifier
  characters) or of a COM port (\<open>COM\<close> and a number).
\<close>

definition digit_char :: "char \<Rightarrow> bool" where
  "digit_char c = (let n = (of_char c :: nat) in 48 \<le> n \<and> n \<le> 57)"

definition sample_validateSerialPort :: "string \<Rightarrow> bool" where
  "sample_validateSerialPort s =
     ((startsWith s ''/dev/'' \<and> drop 5 s \<noteq> [] \<and> list_all identifier_char (drop 5 s))
      \<or> (startsWith s ''COM'' \<and> drop 3 s \<noteq> [] \<and> list_all digit_char (drop 3 s)))"

text \<open>
  A stand-in for \<open>parseStderrErrors\<close> of utils/errors.ts: the trimmed lines of stderr that
  are not empty. The executor of the sample is a mock process that answers every call
  with the given outcome.
\<close>

definition sample_parseStderrErrors :: "string \<Rightarrow> string list" where
  "sample_parseStderrErrors s = filter (\<lambda>l. l \<noteq> []) (map trim (js_split CHR 0x0A s))"

definition sample_env :: "(exn + CommandResult) \<Rightarrow> env" where
  "sample_env outcome =
     \<lparr>validateProjectPath = sample_validateProjectPath,
      validateEnvironmentName = sample_validateEnvironmentName,
      validateSerialPort = sample_validateSerialPort,
      parseStderrErrors = sample_parseStderrErrors,
      execute = (\<lambda>command args cwd t. outcome)\<rparr>"

text \<open>
  Sample handlers of the other modules: each returns a fixed text and calls nothing. The
  sample \<open>formatPlatformIOError\<close> is the message of the error, and the sample
  \<open>JSON.stringify\<close> shows the output text of a result.
\<close>

definition sample_tools :: "string tools" where
  "sample_tools =
     \<lparr>listBoards = (\<lambda>filter. io_return ''boards''),
      getBoardInfo = (\<lambda>boardId. io_return ''board''),
      listDevices = io_return ''devices'',
      initProject = (\<lambda>params. io_return ''project''),
      startMonitor = (\<lambda>port baud projectDir. io_return ''monitor''),
      searchLibraries = (\<lambda>query limit. io_return ''libraries''),
      installLibrary = (\<lambda>library options. io_return ''installed''),
      listInstalledLibraries = (\<lambda>projectDir. io_return ''installed libraries''),
      formatPlatformIOError = message,
      JSON_stringify = (\<lambda>v. case v of
                            BuildValue r \<Rightarrow> build_output r
                          | CleanValue r \<Rightarrow> clean_message r
                          | UploadValue r \<Rightarrow> upload_output r
                          | OtherValue s \<Rightarrow> s)\<rparr>"

text \<open>Two outcomes of the mock process: a success and a failure.\<close>

definition sample_success :: CommandResult where
  "sample_success = \<lparr>stdout = ''Linking firmware.elf'', stderr = [], exitCode = 0\<rparr>"

definition sample_failure :: CommandResult where
  "sample_failure =
     \<lparr>stdout = ''Uploading'', stderr = ''Error: Could not open port /dev/ttyUSB0'', exitCode = 1\<rparr>"

text \<open>An outcome whose stdout is a listing of targets.\<close>

definition sample_listing :: CommandResult where
  "sample_listing =
     \<lparr>stdout = ''Environment    Group     Name\<newline>-----------\<newline>  upload  \<newline>Platform: esp\<newline>\<newline>clean'',
      stderr = [], exitCode = 0\<rparr>"

section \<open>The handlers by cases\<close>

lemma io_bind_pair:
  "io_bind (tr, r) f = (case r of Inl e \<Rightarrow> (tr, Inl e) | Inr x \<Rightarrow> (tr @ fst (f x), snd (f x)))"
  by (simp add: io_bind_def split: sum.splits prod.splits)

lemma io_try_pair:
  "io_try (tr, r) h = (case r of Inl e \<Rightarrow> (tr @ fst (h e), snd (h e)) | Inr x \<Rightarrow> (tr, Inr x))"
  by (simp add: io_try_def split: sum.splits prod.splits)

lemma check_environment_cases:
  "check_environment E env err =
     (if truthy env
      then ([Validate EnvironmentName (the env) (validateEnvironmentName E (the env))],
            if validateEnvironmentName E (the env) then Inr () else Inl (err (the env)))
      else ([], Inr ()))"
  by (simp add: check_environment_def call_validateEnvironmentName_def io_bind_pair
      io_throw_def io_return_def)

lemma check_port_cases:
  "check_port E port err =
     (if truthy port
      then ([Validate SerialPort (the port) (validateSerialPort E (the port))],
            if validateSerialPort E (the port) then Inr () else Inl (err (the port)))
      else ([], Inr ()))"
  by (simp add: check_port_def call_validateSerialPort_def io_bind_pair io_throw_def io_return_def)

lemmas io_cases = io_bind_pair io_try_pair io_return_def io_throw_def
  call_validateProjectPath_def call_execute_def check_environment_cases check_port_cases Let_def

lemma buildProject_shape:
  "buildProject E p env =
     guarded_run E p env None
       (\<lambda>e. BuildError (''Invalid environment name: '' @ e) [(''environment'', env)])
       (\<lambda>x. Error [])
       (push_environment [] env) 600000
       (\<lambda>error. BuildError
          (if instanceofPlatformIOError error then ''Build failed: '' @ message error
           else ''Failed to build project: '' @ toString error)
          [(''projectDir'', Some p), (''environment'', env)])
       (buildResult E env)"
  by (simp add: buildProject_def guarded_run_def io_cases env_events_def port_events_def
      split: sum.splits)

lemma buildTarget_shape:
  "buildTarget E p target env =
     guarded_run E p env None
       (\<lambda>e. BuildError (''Invalid environment name: '' @ e) [(''environment'', env)])
       (\<lambda>x. Error [])
       (push_environment [''--target'', target] env) 600000
       (\<lambda>error. BuildError
          (if instanceofPlatformIOError error
           then ''Target '' @ [CHR 0x27] @ target @ [CHR 0x27] @ '' failed: '' @ message error
           else ''Failed to build target '' @ [CHR 0x27] @ target @ [CHR 0x27] @ '': ''
                  @ toString error)
          [(''projectDir'', Some p), (''target'', Some target), (''environment'', env)])
       (buildResult E env)"
  by (simp add: buildTarget_def guarded_run_def io_cases env_events_def port_events_def
      split: sum.splits)

lemma uploadFirmware_shape:
  "uploadFirmware E p port env =
     guarded_run E p env port
       (\<lambda>e. UploadError (''Invalid environment name: '' @ e) [(''environment'', env)])
       (\<lambda>x. UploadError (''Invalid serial port: '' @ x) [(''port'', port)])
       ([''--target'', ''upload''] @ env_args env @ upload_port_args port) 300000
       (\<lambda>error. UploadError
          (if instanceofPlatformIOError error then ''Upload failed: '' @ message error
           else ''Failed to upload firmware: '' @ toString error)
          [(''projectDir'', Some p), (''port'', port), (''environment'', env)])
       (uploadResult E port)"
  by (simp add: uploadFirmware_def guarded_run_def io_cases env_events_def port_events_def
      push_environment_def slice1_def env_args_def upload_port_args_def split: sum.splits)

lemma uploadAndMonitor_shape:
  "uploadAndMonitor E p port env =
     guarded_run E p env port
       (\<lambda>e. UploadError (''Invalid environment name: '' @ e) [(''environment'', env)])
       (\<lambda>x. UploadError (''Invalid serial port: '' @ x) [(''port'', port)])
       ([''--target'', ''upload'', ''--target'', ''monitor''] @ env_args env @ monitor_port_args port)
       300000
       (\<lambda>error. UploadError
          (if instanceofPlatformIOError error then ''Upload and monitor failed: '' @ message error
           else ''Failed to upload and monitor: '' @ toString error)
          [(''projectDir'', Some p), (''port'', port), (''environment'', env)])
       (uploadResult E port)"
  by (simp add: uploadAndMonitor_def guarded_run_def io_cases env_events_def port_events_def
      push_environment_def slice1_def env_args_def monitor_port_args_def split: sum.splits)

lemma uploadFilesystem_shape:
  "uploadFilesystem E p port env =
     guarded_run E p env port
       (\<lambda>e. UploadError (''Invalid environment name: '' @ e) [(''environment'', env)])
       (\<lambda>x. UploadError (''Invalid serial port: '' @ x) [(''port'', port)])
       ([''--target'', ''uploadfs''] @ env_args env @ upload_port_args port) 300000
       (\<lambda>error. UploadError
          (if instanceofPlatformIOError error then ''Filesystem upload failed: '' @ message error
           else ''Failed to upload filesystem: '' @ toString error)
          [(''projectDir'', Some p), (''port'', port), (''environment'', env)])
       (uploadResult E port)"
  by (simp add: uploadFilesystem_def guarded_run_def io_cases env_events_def port_events_def
      push_environment_def slice1_def env_args_def upload_port_args_def split: sum.splits)

lemma listTargets_cases:
  "listTargets E p env =
     (case validateProjectPath E p of
        Inl e \<Rightarrow> ([Validate ProjectPath p False], Inl e)
      | Inr vp \<Rightarrow>
          ([Validate ProjectPath p True,
            Execute ''run'' (''--list-targets'' # env_args env) vp 30000],
           case execute E ''run'' (''--list-targets'' # env_args env) vp 30000 of
             Inl error \<Rightarrow>
               Inl (if instanceofBuildError error then error
                    else BuildError (''Failed to list build targets: '' @ toString error)
                           [(''projectDir'', Some p)])
           | Inr result \<Rightarrow>
               if exitCode result \<noteq> 0
               then Inl (BuildError ''Failed to list targets''
                           [(''projectDir'', Some p), (''stderr'', Some (stderr result))])
               else Inr (collect_targets [] (js_split CHR 0x0A (stdout result)))))"
  by (simp add: listTargets_def io_cases push_environment_def env_args_def split: sum.splits)

lemma cleanProject_cases:
  "cleanProject E p =
     (case validateProjectPath E p of
        Inl e \<Rightarrow> ([Validate ProjectPath p False], Inl e)
      | Inr vp \<Rightarrow>
          ([Validate ProjectPath p True, Execute ''run'' [''--target'', ''clean''] vp 60000],
           case execute E ''run'' [''--target'', ''clean''] vp 60000 of
             Inl error \<Rightarrow>
               Inl (if instanceofBuildError error then error
                    else BuildError (''Failed to clean project: '' @ toString error)
                           [(''projectDir'', Some p)])
           | Inr result \<Rightarrow>
               if exitCode result \<noteq> 0
               then Inl (BuildError (''Clean failed: '' @ stderr result)
                           [(''projectDir'', Some p), (''stderr'', Some (stderr result))])
               else Inr \<lparr>clean_success = True,
                         clean_message = ''Successfully cleaned build artifacts''\<rparr>))"
  by (simp add: cleanProject_def io_cases split: sum.splits)


section \<open>Facts about the common shape\<close>

lemma executions_guarded_run:
  "executions (guarded_run E p env port ee pe args t wrap mk) =
     (case validateProjectPath E p of
        Inl e \<Rightarrow> []
      | Inr vp \<Rightarrow> if env_ok E env \<and> port_ok E port then [Execute ''run'' args vp t] else [])"
  by (cases "validateProjectPath E p")
    (auto simp: executions_def guarded_run_def env_ok_def port_ok_def env_events_def
      port_events_def)

lemma timeouts_guarded_run:
  "timeouts (fst (guarded_run E p env port ee pe args t wrap mk)) =
     (if path_ok E p \<and> env_ok E env \<and> port_ok E port then [t] else [])"
  by (cases "validateProjectPath E p")
    (auto simp: guarded_run_def path_ok_def env_ok_def port_ok_def env_events_def
      port_events_def)

lemma resolved_guarded_run:
  "resolved E (fst (guarded_run E p env port ee pe args t wrap mk)) result \<Longrightarrow>
   snd (guarded_run E p env port ee pe args t wrap mk) = Inr (mk result)"
  by (cases "validateProjectPath E p")
    (auto simp: guarded_run_def env_events_def port_events_def split: if_splits)

lemma guarded_run_rejects:
  "\<not> (path_ok E p \<and> env_ok E env \<and> port_ok E port) \<Longrightarrow>
   executions (guarded_run E p env port ee pe args t wrap mk) = []
   \<and> isl (snd (guarded_run E p env port ee pe args t wrap mk))"
  by (cases "validateProjectPath E p")
    (auto simp: executions_def guarded_run_def path_ok_def env_ok_def port_ok_def env_events_def
      port_events_def)

lemma boundary_guarded_run:
  "boundary_respected E p (environment_id env) []
     (fst (guarded_run E p env port ee pe args t wrap mk))"
  by (cases "validateProjectPath E p")
    (auto simp: guarded_run_def environment_id_def env_events_def port_events_def)


section \<open>Evaluation on the sample environment\<close>

lemmas sample_simps = sample_env_def sample_validateProjectPath_def shell_metachar_def
  sample_validateEnvironmentName_def sample_validateSerialPort_def identifier_char_def
  digit_char_def
  startsWith_def sample_parseStderrErrors_def trim_def isWhiteSpace_def
  sample_success_def sample_failure_def sample_listing_def

lemmas shape_simps = guarded_run_def env_events_def port_events_def env_args_def
  upload_port_args_def monitor_port_args_def push_environment_def

section \<open>Interpretation of the executor outcome\<close>

text \<open>
  C3. Whenever a build or upload handler has called the executor and the call resolved to
  an outcome, the handler returns a result whose success flag is true exactly when the
  exit code is 0, whose output is the captured stdout as it is, and whose errors field is
  absent on success and is \<open>parseStderrErrors\<close> of stderr otherwise.
\<close>

theorem handlers_interpret_outcome:
  "(resolved E (fst (buildProject E p env)) result \<longrightarrow>
      snd (buildProject E p env) =
        Inr \<lparr>build_success = (exitCode result = 0), build_environment = or_else env ''default'',
             build_output = stdout result,
             build_errors = (if exitCode result = 0 then None
                             else Some (parseStderrErrors E (stderr result)))\<rparr>)
   \<and> (resolved E (fst (buildTarget E p target env)) result \<longrightarrow>
      snd (buildTarget E p target env) =
        Inr \<lparr>build_success = (exitCode result = 0), build_environment = or_else env ''default'',
             build_output = stdout result,
             build_errors = (if exitCode result = 0 then None
                             else Some (parseStderrErrors E (stderr result)))\<rparr>)
   \<and> (resolved E (fst (uploadFirmware E p port env)) result \<longrightarrow>
      snd (uploadFirmware E p port env) =
        Inr \<lparr>upload_success = (exitCode result = 0), upload_port = port,
             upload_output = stdout result,
             upload_errors = (if exitCode result = 0 then None
                              else Some (parseStderrErrors E (stderr result)))\<rparr>)
   \<and> (resolved E (fst (uploadAndMonitor E p port env)) result \<longrightarrow>
      snd (uploadAndMonitor E p port env) =
        Inr \<lparr>upload_success = (exitCode result = 0), upload_port = port,
             upload_output = stdout result,
             upload_errors = (if exitCode result = 0 then None
                              else Some (parseStderrErrors E (stderr result)))\<rparr>)
   \<and> (resolved E (fst (uploadFilesystem E p port env)) result \<longrightarrow>
      snd (uploadFilesystem E p port env) =
        Inr \<lparr>upload_success = (exitCode result = 0), upload_port = port,
             upload_output = stdout result,
             upload_errors = (if exitCode result = 0 then None
                              else Some (parseStderrErrors E (stderr result)))\<rparr>)"
proof -
  have build: "buildResult E env result =
      \<lparr>build_success = (exitCode result = 0), build_environment = or_else env ''default'',
       build_output = stdout result,
       build_errors = (if exitCode result = 0 then None
                       else Some (parseStderrErrors E (stderr result)))\<rparr>"
    by (simp add: buildResult_def)
  have upload: "uploadResult E port result =
      \<lparr>upload_success = (exitCode result = 0), upload_port = port,
       upload_output = stdout result,
       upload_errors = (if exitCode result = 0 then None
                        else Some (parseStderrErrors E (stderr result)))\<rparr>"
    by (simp add: uploadResult_def)
  show ?thesis
    unfolding buildProject_shape buildTarget_shape uploadFirmware_shape uploadAndMonitor_shape
      uploadFilesystem_shape build [symmetric] upload [symmetric]
    by (intro conjI impI resolved_guarded_run)
qed

theorem handlers_interpret_outcome_witness:
  "resolved (sample_env (Inr sample_failure))
     (fst (buildProject (sample_env (Inr sample_failure)) ''/tmp/proj'' (Some ''esp32dev'')))
     sample_failure
   \<and> snd (buildProject (sample_env (Inr sample_failure)) ''/tmp/proj'' (Some ''esp32dev'')) =
       Inr \<lparr>build_success = False, build_environment = ''esp32dev'', build_output = ''Uploading'',
            build_errors = Some [''Error: Could not open port /dev/ttyUSB0'']\<rparr>
   \<and> resolved (sample_env (Inr sample_failure))
     (fst (buildTarget (sample_env (Inr sample_failure)) ''/tmp/proj'' ''size'' (Some ''esp32dev'')))
     sample_failure
   \<and> resolved (sample_env (Inr sample_failure))
     (fst (uploadFirmware (sample_env (Inr sample_failure)) ''/tmp/proj'' (Some ''/dev/ttyUSB0'')
            (Some ''esp32dev'')))
     sample_failure
   \<and> snd (uploadFirmware (sample_env (Inr sample_failure)) ''/tmp/proj'' (Some ''/dev/ttyUSB0'')
            (Some ''esp32dev'')) =
       Inr \<lparr>upload_success = False, upload_port = Some ''/dev/ttyUSB0'',
            upload_output = ''Uploading'',
            upload_errors = Some [''Error: Could not open port /dev/ttyUSB0'']\<rparr>
   \<and> resolved (sample_env (Inr sample_failure))
     (fst (uploadAndMonitor (sample_env (Inr sample_failure)) ''/tmp/proj'' (Some ''/dev/ttyUSB0'')
            (Some ''esp32dev'')))
     sample_failure
   \<and> resolved (sample_env (Inr sample_failure))
     (fst (uploadFilesystem (sample_env (Inr sample_failure)) ''/tmp/proj'' (Some ''/dev/ttyUSB0'')
            (Some ''esp32dev'')))
     sample_failure"
  using handlers_interpret_outcome [where E = "sample_env (Inr sample_failure)"
      and p = "''/tmp/proj''" and env = "Some ''esp32dev''" and result = sample_failure
      and target = "''size''" and port = "Some ''/dev/ttyUSB0''"]
  by (simp add: buildProject_shape buildTarget_shape uploadFirmware_shape uploadAndMonitor_shape
      uploadFilesystem_shape shape_simps sample_simps)


section \<open>One executor call for build-then-flash\<close>

text \<open>
  C5, as stated, fails on a call that does not pass validation: \<open>buildAndUpload\<close> then
  makes no executor call, not exactly one.
\<close>

theorem buildAndUpload_exactly_one_call_counterexample:
  "length (executions (buildAndUpload (sample_env (Inr sample_success)) ''/tmp/../etc''
     None None)) \<noteq> 1"
  by (simp add: buildAndUpload_def uploadFirmware_shape executions_guarded_run sample_simps)

text \<open>
  C5, amended. \<open>buildAndUpload\<close> is \<open>uploadFirmware\<close> on every input. It never makes two
  executor calls, and every call it makes is the run command with the upload target
  first. When the inputs pass validation it makes exactly one such call, with the
  environment and the port that are supplied; when they do not, it makes none.
\<close>

theorem buildAndUpload_is_uploadFirmware:
  "buildAndUpload E p port env = uploadFirmware E p port env
   \<and> length (executions (buildAndUpload E p port env)) \<le> 1
   \<and> (\<forall>ev \<in> set (executions (buildAndUpload E p port env)).
        \<exists>rest cwd. ev = Execute ''run'' (''--target'' # ''upload'' # rest) cwd 300000)
   \<and> (validateProjectPath E p = Inr vp \<and> env_ok E env \<and> port_ok E port \<longrightarrow>
        executions (buildAndUpload E p port env) =
          [Execute ''run'' ([''--target'', ''upload''] @ env_args env @ upload_port_args port)
             vp 300000])
   \<and> (\<not> (path_ok E p \<and> env_ok E env \<and> port_ok E port) \<longrightarrow>
        executions (buildAndUpload E p port env) = [])"
  by (cases "validateProjectPath E p")
    (simp_all add: buildAndUpload_def uploadFirmware_shape executions_guarded_run path_ok_def)

theorem buildAndUpload_is_uploadFirmware_witness:
  "validateProjectPath (sample_env (Inr sample_success)) ''/tmp/proj'' = Inr ''/tmp/proj''
   \<and> env_ok (sample_env (Inr sample_success)) (Some ''esp32dev'')
   \<and> port_ok (sample_env (Inr sample_success)) (Some ''/dev/ttyUSB0'')
   \<and> buildAndUpload (sample_env (Inr sample_success)) ''/tmp/proj'' (Some ''/dev/ttyUSB0'')
        (Some ''esp32dev'') =
      uploadFirmware (sample_env (Inr sample_success)) ''/tmp/proj'' (Some ''/dev/ttyUSB0'')
        (Some ''esp32dev'')
   \<and> executions (buildAndUpload (sample_env (Inr sample_success)) ''/tmp/proj''
        (Some ''/dev/ttyUSB0'') (Some ''esp32dev'')) =
      [Execute ''run''
         [''--target'', ''upload'', ''--environment'', ''esp32dev'', ''--upload-port'',
          ''/dev/ttyUSB0'']
         ''/tmp/proj'' 300000]
   \<and> \<not> path_ok (sample_env (Inr sample_success)) ''/tmp/../etc''
   \<and> executions (buildAndUpload (sample_env (Inr sample_success)) ''/tmp/../etc''
        (Some ''/dev/ttyUSB0'') (Some ''esp32dev'')) = []"
proof -
  have path: "validateProjectPath (sample_env (Inr sample_success)) ''/tmp/proj''
      = Inr ''/tmp/proj''"
    by (simp add: sample_simps)
  have env: "env_ok (sample_env (Inr sample_success)) (Some ''esp32dev'')"
    by (simp add: env_ok_def sample_simps)
  have port: "port_ok (sample_env (Inr sample_success)) (Some ''/dev/ttyUSB0'')"
    by (simp add: port_ok_def sample_simps)
  have bad: "\<not> path_ok (sample_env (Inr sample_success)) ''/tmp/../etc''"
    by (simp add: path_ok_def sample_simps)
  note good = buildAndUpload_is_uploadFirmware [where E = "sample_env (Inr sample_success)"
      and p = "''/tmp/proj''" and port = "Some ''/dev/ttyUSB0''" and env = "Some ''esp32dev''"
      and vp = "''/tmp/proj''"]
  note none = buildAndUpload_is_uploadFirmware [where E = "sample_env (Inr sample_success)"
      and p = "''/tmp/../etc''" and port = "Some ''/dev/ttyUSB0''" and env = "Some ''esp32dev''"]
  have same: "buildAndUpload (sample_env (Inr sample_success)) ''/tmp/proj''
      (Some ''/dev/ttyUSB0'') (Some ''esp32dev'') =
      uploadFirmware (sample_env (Inr sample_success)) ''/tmp/proj'' (Some ''/dev/ttyUSB0'')
      (Some ''esp32dev'')"
    using good by blast
  have one: "executions (buildAndUpload (sample_env (Inr sample_success)) ''/tmp/proj''
      (Some ''/dev/ttyUSB0'') (Some ''esp32dev'')) =
      [Execute ''run''
         [''--target'', ''upload'', ''--environment'', ''esp32dev'', ''--upload-port'',
          ''/dev/ttyUSB0'']
         ''/tmp/proj'' 300000]"
  proof -
    have "executions (buildAndUpload (sample_env (Inr sample_success)) ''/tmp/proj''
        (Some ''/dev/ttyUSB0'') (Some ''esp32dev'')) =
        [Execute ''run'' ([''--target'', ''upload''] @ env_args (Some ''esp32dev'')
           @ upload_port_args (Some ''/dev/ttyUSB0'')) ''/tmp/proj'' 300000]"
      using good path env port by blast
    then show ?thesis
      by (simp add: env_args_def upload_port_args_def)
  qed
  have zero: "executions (buildAndUpload (sample_env (Inr sample_success)) ''/tmp/../etc''
      (Some ''/dev/ttyUSB0'') (Some ''esp32dev'')) = []"
    using none bad by blast
  from path env port same one bad zero show ?thesis
    by blast
qed

section \<open>Timeout classes\<close>

text \<open>
  C6. The timeouts of the executor calls of each handler, for every input: \<open>listTargets\<close>
  calls with 30000 ms, \<open>buildProject\<close> and \<open>buildTarget\<close> with 600000 ms, \<open>uploadFirmware\<close>,
  \<open>uploadAndMonitor\<close> and \<open>uploadFilesystem\<close> with 300000 ms; the call is made, once,
  exactly when the inputs pass the validation of the handler.
\<close>

theorem handler_timeouts:
  "timeouts (fst (listTargets E p env)) = (if path_ok E p then [30000] else [])
   \<and> timeouts (fst (buildProject E p env)) =
       (if path_ok E p \<and> env_ok E env then [600000] else [])
   \<and> timeouts (fst (buildTarget E p target env)) =
       (if path_ok E p \<and> env_ok E env then [600000] else [])
   \<and> timeouts (fst (uploadFirmware E p port env)) =
       (if path_ok E p \<and> env_ok E env \<and> port_ok E port then [300000] else [])
   \<and> timeouts (fst (uploadAndMonitor E p port env)) =
       (if path_ok E p \<and> env_ok E env \<and> port_ok E port then [300000] else [])
   \<and> timeouts (fst (uploadFilesystem E p port env)) =
       (if path_ok E p \<and> env_ok E env \<and> port_ok E port then [300000] else [])"
proof -
  have "timeouts (fst (listTargets E p env)) = (if path_ok E p then [30000] else [])"
    by (cases "validateProjectPath E p") (simp_all add: listTargets_cases path_ok_def)
  moreover have "port_ok E None"
    by (simp add: port_ok_def)
  ultimately show ?thesis
    by (simp add: buildProject_shape buildTarget_shape uploadFirmware_shape
        uploadAndMonitor_shape uploadFilesystem_shape timeouts_guarded_run)
qed

theorem handler_timeouts_witness:
  "path_ok (sample_env (Inr sample_success)) ''/tmp/proj''
   \<and> env_ok (sample_env (Inr sample_success)) (Some ''esp32dev'')
   \<and> port_ok (sample_env (Inr sample_success)) (Some ''COM3'')
   \<and> timeouts (fst (listTargets (sample_env (Inr sample_success)) ''/tmp/proj''
        (Some ''esp32dev''))) = [30000]
   \<and> timeouts (fst (buildProject (sample_env (Inr sample_success)) ''/tmp/proj''
        (Some ''esp32dev''))) = [600000]
   \<and> timeouts (fst (buildTarget (sample_env (Inr sample_success)) ''/tmp/proj'' ''size''
        (Some ''esp32dev''))) = [600000]
   \<and> timeouts (fst (uploadFirmware (sample_env (Inr sample_success)) ''/tmp/proj''
        (Some ''COM3'') (Some ''esp32dev''))) = [300000]
   \<and> timeouts (fst (uploadAndMonitor (sample_env (Inr sample_success)) ''/tmp/proj''
        (Some ''COM3'') (Some ''esp32dev''))) = [300000]
   \<and> timeouts (fst (uploadFilesystem (sample_env (Inr sample_success)) ''/tmp/proj''
        (Some ''COM3'') (Some ''esp32dev''))) = [300000]"
  using handler_timeouts [where E = "sample_env (Inr sample_success)" and p = "''/tmp/proj''"
      and env = "Some ''esp32dev''" and port = "Some ''COM3''" and target = "''size''"]
  by (simp add: path_ok_def env_ok_def port_ok_def sample_simps)

section \<open>Upload and monitor\<close>

text \<open>
  C8, as stated, fails on a call that does not pass validation: no executor call is made.
\<close>

theorem uploadAndMonitor_always_one_call_counterexample:
  "length (executions (uploadAndMonitor (sample_env (Inr sample_success)) ''/tmp/../etc''
     None None)) \<noteq> 1"
  by (simp add: uploadAndMonitor_shape executions_guarded_run sample_simps)

text \<open>
  C8, amended. A call of \<open>uploadAndMonitor\<close> whose inputs pass validation makes exactly one
  executor call; its argument vector is \<open>--target upload --target monitor\<close> (the leading
  \<open>run\<close> of the local array is dropped), then the environment if one is supplied, then,
  if a non-empty port is supplied, that port under \<open>--upload-port\<close> and under
  \<open>--monitor-port\<close>. A call whose inputs do not pass validation makes no executor call.
\<close>

theorem uploadAndMonitor_single_call:
  "executions (uploadAndMonitor E p port env) =
     (case validateProjectPath E p of
        Inl e \<Rightarrow> []
      | Inr vp \<Rightarrow>
          if env_ok E env \<and> port_ok E port
          then [Execute ''run''
                  ([''--target'', ''upload'', ''--target'', ''monitor'']
                   @ (if truthy env then [''--environment'', the env] else [])
                   @ (if truthy port
                      then [''--upload-port'', the port, ''--monitor-port'', the port] else []))
                  vp 300000]
          else [])"
  by (cases "validateProjectPath E p")
    (simp_all add: uploadAndMonitor_shape executions_guarded_run env_args_def
      monitor_port_args_def)

theorem uploadAndMonitor_single_call_witness:
  "env_ok (sample_env (Inr sample_success)) (Some ''uno'')
   \<and> port_ok (sample_env (Inr sample_success)) (Some ''/dev/ttyACM0'')
   \<and> executions (uploadAndMonitor (sample_env (Inr sample_success)) ''/tmp/proj''
        (Some ''/dev/ttyACM0'') (Some ''uno'')) =
      [Execute ''run''
         [''--target'', ''upload'', ''--target'', ''monitor'', ''--environment'', ''uno'',
          ''--upload-port'', ''/dev/ttyACM0'', ''--monitor-port'', ''/dev/ttyACM0'']
         ''/tmp/proj'' 300000]"
  using uploadAndMonitor_single_call [where E = "sample_env (Inr sample_success)"
      and p = "''/tmp/proj''" and port = "Some ''/dev/ttyACM0''" and env = "Some ''uno''"]
  by (simp add: env_ok_def port_ok_def sample_simps)


section \<open>The list of targets\<close>

lemma startsWith_prefix: "startsWith s p \<longleftrightarrow> prefix p s"
  by (auto simp: startsWith_def prefix_def)
     (metis append_eq_conv_conj)

lemma includes_str_char: "includes_str s [c] \<longleftrightarrow> c \<in> set s"
proof
  assume "includes_str s [c]"
  then obtain i where "take 1 (drop i s) = [c]"
    by (auto simp: includes_str_def list_ex_iff)
  then have "c \<in> set (take 1 (drop i s))"
    by simp
  then show "c \<in> set s"
    by (meson in_set_dropD in_set_takeD)
next
  assume "c \<in> set s"
  then obtain i where i: "i < length s" "s ! i = c"
    by (auto simp: in_set_conv_nth)
  then have "take 1 (drop i s) = [c]"
    by (simp add: take_Suc_conv_app_nth)
  with i show "includes_str s [c]"
    by (auto simp: includes_str_def list_ex_iff intro!: bexI [of _ i])
qed

lemma collect_targets_filter:
  "collect_targets targets lines =
     targets @ filter (\<lambda>l. l \<noteq> [] \<and> \<not> prefix ''Environment'' l \<and> CHR '':'' \<notin> set l)
                 (map trim lines)"
  by (induction lines arbitrary: targets)
    (simp_all add: Let_def startsWith_prefix includes_str_char)

lemma collect_targets_target_lines:
  "collect_targets [] (js_split CHR 0x0A out) = target_lines out"
  by (simp add: collect_targets_filter target_lines_def)

text \<open>
  C9. When the executor call of \<open>listTargets\<close> resolved to an outcome with exit code 0,
  \<open>listTargets\<close> returns the trimmed lines of stdout that are not empty, do not start
  with \<open>Environment\<close> and contain no colon, in the order of stdout. When it resolved to
  an outcome with another exit code, \<open>listTargets\<close> throws a \<open>BuildError\<close> whose context
  holds the stderr text, and returns no list.
\<close>

theorem listTargets_result:
  "(resolved E (fst (listTargets E p env)) result \<and> exitCode result = 0 \<longrightarrow>
      snd (listTargets E p env) = Inr (target_lines (stdout result)))
   \<and> (resolved E (fst (listTargets E p env)) result \<and> exitCode result \<noteq> 0 \<longrightarrow>
      snd (listTargets E p env) =
        Inl (BuildError ''Failed to list targets''
               [(''projectDir'', Some p), (''stderr'', Some (stderr result))]))"
  by (cases "validateProjectPath E p")
    (auto simp: listTargets_cases collect_targets_target_lines)

theorem listTargets_result_witness:
  "resolved (sample_env (Inr sample_listing))
     (fst (listTargets (sample_env (Inr sample_listing)) ''/tmp/proj'' None)) sample_listing
   \<and> exitCode sample_listing = 0
   \<and> snd (listTargets (sample_env (Inr sample_listing)) ''/tmp/proj'' None) =
       Inr [''-----------'', ''upload'', ''clean'']
   \<and> resolved (sample_env (Inr sample_failure))
     (fst (listTargets (sample_env (Inr sample_failure)) ''/tmp/proj'' None)) sample_failure
   \<and> exitCode sample_failure \<noteq> 0
   \<and> snd (listTargets (sample_env (Inr sample_failure)) ''/tmp/proj'' None) =
       Inl (BuildError ''Failed to list targets''
              [(''projectDir'', Some ''/tmp/proj''),
               (''stderr'', Some ''Error: Could not open port /dev/ttyUSB0'')])"
  using listTargets_result [where E = "sample_env (Inr sample_listing)" and p = "''/tmp/proj''"
      and env = None and result = sample_listing]
    listTargets_result [where E = "sample_env (Inr sample_failure)" and p = "''/tmp/proj''"
      and env = None and result = sample_failure]
  by (simp add: listTargets_cases env_args_def target_lines_def sample_simps sample_listing_def)


section \<open>Case of identifiers\<close>

text \<open>
  C7. An environment identifier that a handler accepts (it is supplied, hence not empty,
  the project path is valid and \<open>validateEnvironmentName\<close> accepts it) reaches the executor
  as the very string that was given, right after \<open>--environment\<close>, and is the environment
  field of the result of \<open>buildProject\<close> and \<open>buildTarget\<close>. An identifier that differs from
  it only in the case of letters gives another argument vector and another environment
  field.
\<close>

theorem environment_case_preserved:
  assumes "validateProjectPath E p = Inr vp" and "e \<noteq> []" and "validateEnvironmentName E e"
  shows "executions (buildProject E p (Some e)) =
           [Execute ''run'' [''--environment'', e] vp 600000]
    \<and> (\<forall>result. resolved E (fst (buildProject E p (Some e))) result \<longrightarrow>
          (\<exists>r. snd (buildProject E p (Some e)) = Inr r \<and> build_environment r = e))
    \<and> executions (buildTarget E p target (Some e)) =
           [Execute ''run'' [''--target'', target, ''--environment'', e] vp 600000]
    \<and> (\<forall>result. resolved E (fst (buildTarget E p target (Some e))) result \<longrightarrow>
          (\<exists>r. snd (buildTarget E p target (Some e)) = Inr r \<and> build_environment r = e))
    \<and> (port_ok E port \<longrightarrow>
          executions (uploadFirmware E p port (Some e)) =
            [Execute ''run'' ([''--target'', ''upload'', ''--environment'', e]
               @ upload_port_args port) vp 300000]
          \<and> executions (uploadAndMonitor E p port (Some e)) =
            [Execute ''run'' ([''--target'', ''upload'', ''--target'', ''monitor'',
               ''--environment'', e] @ monitor_port_args port) vp 300000]
          \<and> executions (uploadFilesystem E p port (Some e)) =
            [Execute ''run'' ([''--target'', ''uploadfs'', ''--environment'', e]
               @ upload_port_args port) vp 300000])
    \<and> (\<forall>e'. e' \<noteq> e \<and> same_modulo_case e' e \<and> validateEnvironmentName E e' \<longrightarrow>
          executions (buildProject E p (Some e')) \<noteq> executions (buildProject E p (Some e))
          \<and> (\<forall>r r'. snd (buildProject E p (Some e)) = Inr r
                     \<and> snd (buildProject E p (Some e')) = Inr r' \<longrightarrow>
                build_environment r \<noteq> build_environment r'))"
proof -
  have ok: "env_ok E (Some e)" and tr: "truthy (Some e)"
    using assms by (simp_all add: env_ok_def)
  have none: "port_ok E None"
    by (simp add: port_ok_def)
  have env: "build_environment (buildResult E (Some e') result) = e'" if "e' \<noteq> []"
    for e' result
    using that by (simp add: buildResult_def Let_def)
  have exe: "executions (buildProject E p (Some e')) =
      [Execute ''run'' [''--environment'', e'] vp 600000]"
    if "e' \<noteq> []" and "validateEnvironmentName E e'" for e'
    using that assms(1) none
    by (simp add: buildProject_shape executions_guarded_run env_ok_def push_environment_def)
  have res: "snd (buildProject E p (Some e')) = Inr r \<Longrightarrow> build_environment r = e'"
    if "e' \<noteq> []" and "validateEnvironmentName E e'" for e' r
    using that assms(1) env [of e']
    by (auto simp: buildProject_shape guarded_run_def split: sum.splits)
  have nonempty: "e' \<noteq> []" if "same_modulo_case e' e" for e'
    using that assms(2) by (auto simp: same_modulo_case_def)
  have c1: "executions (buildProject E p (Some e)) =
      [Execute ''run'' [''--environment'', e] vp 600000]"
    using exe assms by simp
  have c2: "\<forall>result. resolved E (fst (buildProject E p (Some e))) result \<longrightarrow>
      (\<exists>r. snd (buildProject E p (Some e)) = Inr r \<and> build_environment r = e)"
    using assms(2) by (auto simp: buildProject_shape env dest!: resolved_guarded_run)
  have c3: "executions (buildTarget E p target (Some e)) =
      [Execute ''run'' [''--target'', target, ''--environment'', e] vp 600000]"
    using assms ok none
    by (simp add: buildTarget_shape executions_guarded_run push_environment_def)
  have c4: "\<forall>result. resolved E (fst (buildTarget E p target (Some e))) result \<longrightarrow>
      (\<exists>r. snd (buildTarget E p target (Some e)) = Inr r \<and> build_environment r = e)"
    using assms(2) by (auto simp: buildTarget_shape env dest!: resolved_guarded_run)
  have c5: "port_ok E port \<longrightarrow>
      executions (uploadFirmware E p port (Some e)) =
        [Execute ''run'' ([''--target'', ''upload'', ''--environment'', e]
           @ upload_port_args port) vp 300000]
      \<and> executions (uploadAndMonitor E p port (Some e)) =
        [Execute ''run'' ([''--target'', ''upload'', ''--target'', ''monitor'',
           ''--environment'', e] @ monitor_port_args port) vp 300000]
      \<and> executions (uploadFilesystem E p port (Some e)) =
        [Execute ''run'' ([''--target'', ''uploadfs'', ''--environment'', e]
           @ upload_port_args port) vp 300000]"
    using assms ok
    by (simp add: uploadFirmware_shape uploadAndMonitor_shape uploadFilesystem_shape
        executions_guarded_run env_args_def)
  have c6: "\<forall>e'. e' \<noteq> e \<and> same_modulo_case e' e \<and> validateEnvironmentName E e' \<longrightarrow>
      executions (buildProject E p (Some e')) \<noteq> executions (buildProject E p (Some e))
      \<and> (\<forall>r r'. snd (buildProject E p (Some e)) = Inr r
                 \<and> snd (buildProject E p (Some e')) = Inr r' \<longrightarrow>
            build_environment r \<noteq> build_environment r')"
  proof (intro allI impI)
    fix e'
    assume h: "e' \<noteq> e \<and> same_modulo_case e' e \<and> validateEnvironmentName E e'"
    then have ne: "e' \<noteq> []"
      using nonempty by blast
    have "executions (buildProject E p (Some e')) \<noteq> executions (buildProject E p (Some e))"
      using h ne exe [of e'] c1 by simp
    moreover have "\<forall>r r'. snd (buildProject E p (Some e)) = Inr r
        \<and> snd (buildProject E p (Some e')) = Inr r' \<longrightarrow>
        build_environment r \<noteq> build_environment r'"
      using h ne res [of e'] res [of e] assms by metis
    ultimately show "executions (buildProject E p (Some e'))
        \<noteq> executions (buildProject E p (Some e))
      \<and> (\<forall>r r'. snd (buildProject E p (Some e)) = Inr r
                 \<and> snd (buildProject E p (Some e')) = Inr r' \<longrightarrow>
            build_environment r \<noteq> build_environment r')"
      by blast
  qed
  from c1 c2 c3 c4 c5 c6 show ?thesis
    by blast
qed

theorem environment_case_preserved_witness:
  "validateProjectPath (sample_env (Inr sample_success)) ''/tmp/proj'' = Inr ''/tmp/proj''
   \<and> ''ESP32dev'' \<noteq> []
   \<and> validateEnvironmentName (sample_env (Inr sample_success)) ''ESP32dev''
   \<and> validateEnvironmentName (sample_env (Inr sample_success)) ''esp32dev''
   \<and> same_modulo_case ''esp32dev'' ''ESP32dev''
   \<and> executions (buildProject (sample_env (Inr sample_success)) ''/tmp/proj'' (Some ''ESP32dev''))
       = [Execute ''run'' [''--environment'', ''ESP32dev''] ''/tmp/proj'' 600000]
   \<and> snd (buildProject (sample_env (Inr sample_success)) ''/tmp/proj'' (Some ''ESP32dev''))
       = Inr \<lparr>build_success = True, build_environment = ''ESP32dev'',
              build_output = ''Linking firmware.elf'', build_errors = None\<rparr>
   \<and> executions (buildProject (sample_env (Inr sample_success)) ''/tmp/proj'' (Some ''esp32dev''))
       \<noteq> executions (buildProject (sample_env (Inr sample_success)) ''/tmp/proj''
            (Some ''ESP32dev''))"
proof -
  have path: "validateProjectPath (sample_env (Inr sample_success)) ''/tmp/proj'' = Inr ''/tmp/proj''"
    by (simp add: sample_simps)
  have upper: "validateEnvironmentName (sample_env (Inr sample_success)) ''ESP32dev''"
    by (simp add: sample_simps)
  have lower: "validateEnvironmentName (sample_env (Inr sample_success)) ''esp32dev''"
    by (simp add: sample_simps)
  have same: "same_modulo_case ''esp32dev'' ''ESP32dev''"
    by (simp add: same_modulo_case_def lower_def)
  have result: "snd (buildProject (sample_env (Inr sample_success)) ''/tmp/proj''
      (Some ''ESP32dev'')) =
      Inr \<lparr>build_success = True, build_environment = ''ESP32dev'',
           build_output = ''Linking firmware.elf'', build_errors = None\<rparr>"
    by (simp add: buildProject_shape shape_simps buildResult_def sample_simps)
  note w = environment_case_preserved [OF path _ upper, where target = "''size''" and port = None]
  have calls: "executions (buildProject (sample_env (Inr sample_success)) ''/tmp/proj''
      (Some ''ESP32dev'')) = [Execute ''run'' [''--environment'', ''ESP32dev''] ''/tmp/proj'' 600000]"
    using w by simp
  have differ: "executions (buildProject (sample_env (Inr sample_success)) ''/tmp/proj''
      (Some ''esp32dev''))
      \<noteq> executions (buildProject (sample_env (Inr sample_success)) ''/tmp/proj''
           (Some ''ESP32dev''))"
    using w lower same by force
  from path upper lower same result calls differ show ?thesis
    by simp
qed


section \<open>The boundary between the validators and the executor\<close>

text \<open>
  C1, as stated, fails for the target name of \<open>buildTarget\<close>: it is placed in the argument
  vector although no validator was called on it.
\<close>

theorem target_validated_counterexample:
  "\<not> boundary_respected (sample_env (Inr sample_success)) ''/tmp/proj''
       (environment_id None @ target_id ''up load'') []
       (fst (buildTarget (sample_env (Inr sample_success)) ''/tmp/proj'' ''up load'' None))"
  by (simp add: buildTarget_shape shape_simps environment_id_def target_id_def sample_simps)

text \<open>
  C1, amended. At every executor call of a handler of tools/build.ts and tools/upload.ts,
  the working directory is the value that \<open>validateProjectPath\<close> returns for the project
  directory. In \<open>buildProject\<close>, \<open>buildTarget\<close>, \<open>uploadFirmware\<close>, \<open>uploadAndMonitor\<close> and
  \<open>uploadFilesystem\<close>, an environment name in the argument vector was accepted by
  \<open>validateEnvironmentName\<close> before. The target name of \<open>buildTarget\<close> is placed in the
  argument vector as it is given: no validator is called on it.
\<close>

theorem boundary_of_handlers:
  "boundary_respected E p (environment_id env) [] (fst (buildProject E p env))
   \<and> boundary_respected E p (environment_id env) [] (fst (buildTarget E p target env))
   \<and> boundary_respected E p (environment_id env) [] (fst (uploadFirmware E p port env))
   \<and> boundary_respected E p (environment_id env) [] (fst (uploadAndMonitor E p port env))
   \<and> boundary_respected E p (environment_id env) [] (fst (uploadFilesystem E p port env))
   \<and> boundary_respected E p [] [] (fst (listTargets E p env))
   \<and> boundary_respected E p [] [] (fst (cleanProject E p))
   \<and> (validateProjectPath E p = Inr vp \<longrightarrow>
        fst (buildTarget E p target None) =
          [Validate ProjectPath p True, Execute ''run'' [''--target'', target] vp 600000])"
proof -
  have "boundary_respected E p [] [] (fst (listTargets E p env))"
    by (cases "validateProjectPath E p") (simp_all add: listTargets_cases)
  moreover have "boundary_respected E p [] [] (fst (cleanProject E p))"
    by (cases "validateProjectPath E p") (simp_all add: cleanProject_cases)
  moreover have "validateProjectPath E p = Inr vp \<longrightarrow>
      fst (buildTarget E p target None) =
        [Validate ProjectPath p True, Execute ''run'' [''--target'', target] vp 600000]"
    by (simp add: buildTarget_shape shape_simps)
  ultimately show ?thesis
    by (simp add: buildProject_shape buildTarget_shape uploadFirmware_shape
        uploadAndMonitor_shape uploadFilesystem_shape boundary_guarded_run)
qed

theorem boundary_of_handlers_witness:
  "validateProjectPath (sample_env (Inr sample_success)) ''/tmp/proj'' = Inr ''/tmp/proj''
   \<and> fst (buildProject (sample_env (Inr sample_success)) ''/tmp/proj'' (Some ''esp32dev'')) =
       [Validate ProjectPath ''/tmp/proj'' True, Validate EnvironmentName ''esp32dev'' True,
        Execute ''run'' [''--environment'', ''esp32dev''] ''/tmp/proj'' 600000]
   \<and> boundary_respected (sample_env (Inr sample_success)) ''/tmp/proj''
        (environment_id (Some ''esp32dev'')) []
        (fst (buildProject (sample_env (Inr sample_success)) ''/tmp/proj'' (Some ''esp32dev'')))
   \<and> fst (buildTarget (sample_env (Inr sample_success)) ''/tmp/proj'' ''up load'' None) =
       [Validate ProjectPath ''/tmp/proj'' True,
        Execute ''run'' [''--target'', ''up load''] ''/tmp/proj'' 600000]"
proof -
  have path: "validateProjectPath (sample_env (Inr sample_success)) ''/tmp/proj'' = Inr ''/tmp/proj''"
    by (simp add: sample_simps)
  have trace: "fst (buildProject (sample_env (Inr sample_success)) ''/tmp/proj''
      (Some ''esp32dev'')) =
      [Validate ProjectPath ''/tmp/proj'' True, Validate EnvironmentName ''esp32dev'' True,
       Execute ''run'' [''--environment'', ''esp32dev''] ''/tmp/proj'' 600000]"
    by (simp add: buildProject_shape shape_simps sample_simps)
  note w = boundary_of_handlers [where E = "sample_env (Inr sample_success)"
      and p = "''/tmp/proj''" and env = "Some ''esp32dev''" and target = "''up load''"
      and vp = "''/tmp/proj''"]
  from w path trace show ?thesis
    by blast
qed

section \<open>Validation failures and the executor\<close>

text \<open>
  In \<open>buildProject\<close>, \<open>buildTarget\<close>, \<open>uploadFirmware\<close>, \<open>uploadAndMonitor\<close> and
  \<open>uploadFilesystem\<close>, a project path that \<open>validateProjectPath\<close> rejects, a supplied
  environment that \<open>validateEnvironmentName\<close> rejects or a supplied port that
  \<open>validateSerialPort\<close> rejects makes the handler throw without any executor call.
\<close>

lemma rejected_input_never_executes:
  assumes "\<not> path_ok E p \<or> \<not> env_ok E env \<or> \<not> port_ok E port"
  shows "executions (uploadFirmware E p port env) = [] \<and> isl (snd (uploadFirmware E p port env))"
    and "executions (uploadAndMonitor E p port env) = []
         \<and> isl (snd (uploadAndMonitor E p port env))"
    and "executions (uploadFilesystem E p port env) = []
         \<and> isl (snd (uploadFilesystem E p port env))"
  using assms
  by (simp_all only: uploadFirmware_shape uploadAndMonitor_shape uploadFilesystem_shape)
    (rule guarded_run_rejects, blast)+

lemma rejected_build_input_never_executes:
  assumes "\<not> path_ok E p \<or> \<not> env_ok E env"
  shows "executions (buildProject E p env) = [] \<and> isl (snd (buildProject E p env))"
    and "executions (buildTarget E p target env) = []
         \<and> isl (snd (buildTarget E p target env))"
  using assms
  by (simp_all only: buildProject_shape buildTarget_shape)
    (rule guarded_run_rejects, blast)+

text \<open>
  \<open>listTargets\<close> calls no validator on its environment: whatever
  \<open>validateEnvironmentName\<close> would say, a supplied environment is pushed and the executor
  is called.
\<close>

lemma listTargets_environment_unchecked:
  assumes "validateProjectPath E p = Inr vp" and "e \<noteq> []"
  shows "fst (listTargets E p (Some e)) =
    [Validate ProjectPath p True,
     Execute ''run'' [''--list-targets'', ''--environment'', e] vp 30000]"
  using assms by (simp add: listTargets_cases env_args_def)

text \<open>
  C2 at the input \<open>listTargets('/tmp/proj', 'bad env')\<close>: the environment fails
  \<open>validateEnvironmentName\<close>, yet nothing is thrown, the executor is called with the
  environment in its argument vector, and a list is returned.
\<close>

theorem listTargets_executes_rejected_environment:
  "\<not> validateEnvironmentName (sample_env (Inr sample_listing)) ''bad env''
   \<and> listTargets (sample_env (Inr sample_listing)) ''/tmp/proj'' (Some ''bad env'') =
       ([Validate ProjectPath ''/tmp/proj'' True,
         Execute ''run'' [''--list-targets'', ''--environment'', ''bad env''] ''/tmp/proj'' 30000],
        Inr [''-----------'', ''upload'', ''clean''])"
  by (simp add: listTargets_cases env_args_def collect_targets_filter sample_simps)


section \<open>The handler of tool calls\<close>

lemma callTool_cases:
  "snd (callTool T E req) =
     (case snd (dispatch T E req) of
        Inl error \<Rightarrow> Inr (error_result T error)
      | Inr result \<Rightarrow> Inr result)"
  by (cases "dispatch T E req") (simp add: callTool_def io_try_pair io_return_def split: sum.splits)

lemma dispatch_unknown:
  "name req \<notin> set tool_names \<Longrightarrow>
   dispatch T E req = io_throw (Error (''Unknown tool: '' @ name req))"
  by (simp add: dispatch_def tool_names_def Let_def)

lemma dispatch_build_project:
  "name req = ''build_project'' \<Longrightarrow>
   dispatch T E req =
     io_bind (parsed (BuildProjectParamsSchema (arguments req))) (\<lambda>(projectDir, env).
     io_bind (buildProject E projectDir env) (\<lambda>result. respond T (BuildValue result)))"
  by (simp add: dispatch_def Let_def)

text \<open>
  C4. A tool call always returns a result, never an error: when the body of the handler
  throws (a schema rejects the arguments, a tool handler throws, the name of the tool is
  unknown), the result is the text \<open>Error: \<close> followed by the formatted error, marked
  \<open>isError: true\<close>; otherwise it is the result of the body.
\<close>

theorem callTool_always_responds:
  "(\<exists>result. snd (callTool T E req) = Inr result)
   \<and> (\<forall>error. snd (dispatch T E req) = Inl error \<longrightarrow>
        snd (callTool T E req) =
          Inr \<lparr>content = [Text (''Error: '' @ formatPlatformIOError T error)],
               isError = Some True\<rparr>)
   \<and> (\<forall>result. snd (dispatch T E req) = Inr result \<longrightarrow> snd (callTool T E req) = Inr result)
   \<and> (name req \<notin> set tool_names \<longrightarrow>
        snd (callTool T E req) =
          Inr \<lparr>content = [Text (''Error: '' @ formatPlatformIOError T
                                  (Error (''Unknown tool: '' @ name req)))],
               isError = Some True\<rparr>)
   \<and> (\<forall>error. name req = ''build_project''
          \<and> BuildProjectParamsSchema (arguments req) = Inl error \<longrightarrow>
        snd (callTool T E req) =
          Inr \<lparr>content = [Text (''Error: '' @ formatPlatformIOError T error)],
               isError = Some True\<rparr>)
   \<and> (\<forall>projectDir env error. name req = ''build_project''
          \<and> BuildProjectParamsSchema (arguments req) = Inr (projectDir, env)
          \<and> snd (buildProject E projectDir env) = Inl error \<longrightarrow>
        snd (callTool T E req) =
          Inr \<lparr>content = [Text (''Error: '' @ formatPlatformIOError T error)],
               isError = Some True\<rparr>)"
proof (intro conjI allI impI)
  show "\<exists>result. snd (callTool T E req) = Inr result"
    by (simp add: callTool_cases split: sum.splits)
next
  fix error
  assume "snd (dispatch T E req) = Inl error"
  then show "snd (callTool T E req) =
      Inr \<lparr>content = [Text (''Error: '' @ formatPlatformIOError T error)], isError = Some True\<rparr>"
    by (simp add: callTool_cases error_result_def)
next
  fix result
  assume "snd (dispatch T E req) = Inr result"
  then show "snd (callTool T E req) = Inr result"
    by (simp add: callTool_cases)
next
  assume "name req \<notin> set tool_names"
  then show "snd (callTool T E req) =
      Inr \<lparr>content = [Text (''Error: '' @ formatPlatformIOError T
                              (Error (''Unknown tool: '' @ name req)))],
           isError = Some True\<rparr>"
    by (simp add: callTool_cases dispatch_unknown io_throw_def error_result_def)
next
  fix error
  assume "name req = ''build_project'' \<and> BuildProjectParamsSchema (arguments req) = Inl error"
  then show "snd (callTool T E req) =
      Inr \<lparr>content = [Text (''Error: '' @ formatPlatformIOError T error)], isError = Some True\<rparr>"
    by (simp add: callTool_cases dispatch_build_project parsed_def io_bind_pair error_result_def)
next
  fix projectDir env error
  assume h: "name req = ''build_project''
      \<and> BuildProjectParamsSchema (arguments req) = Inr (projectDir, env)
      \<and> snd (buildProject E projectDir env) = Inl error"
  then have "snd (dispatch T E req) = Inl error"
    by (cases "buildProject E projectDir env")
      (simp add: dispatch_build_project parsed_def io_bind_pair)
  then show "snd (callTool T E req) =
      Inr \<lparr>content = [Text (''Error: '' @ formatPlatformIOError T error)], isError = Some True\<rparr>"
    by (simp add: callTool_cases error_result_def)
qed

theorem callTool_always_responds_witness:
  "''flash'' \<notin> set tool_names
   \<and> snd (callTool sample_tools (sample_env (Inr sample_success))
        \<lparr>name = ''flash'', arguments = None\<rparr>) =
       Inr \<lparr>content = [Text ''Error: Unknown tool: flash''], isError = Some True\<rparr>
   \<and> BuildProjectParamsSchema (Some (JObject [(''projectDir'', JString ''/tmp/../etc'')])) =
       Inr (''/tmp/../etc'', None)
   \<and> snd (buildProject (sample_env (Inr sample_success)) ''/tmp/../etc'' None) =
       Inl (Foreign True ''Invalid path: /tmp/../etc''
              ''ValidationError: Invalid path: /tmp/../etc'')
   \<and> snd (callTool sample_tools (sample_env (Inr sample_success))
        \<lparr>name = ''build_project'',
         arguments = Some (JObject [(''projectDir'', JString ''/tmp/../etc'')])\<rparr>) =
       Inr \<lparr>content = [Text ''Error: Invalid path: /tmp/../etc''], isError = Some True\<rparr>
   \<and> BuildProjectParamsSchema None = Inl (ZodError ''object'')
   \<and> snd (callTool sample_tools (sample_env (Inr sample_success))
        \<lparr>name = ''build_project'', arguments = None\<rparr>) =
       Inr \<lparr>content = [Text ''Error: object''], isError = Some True\<rparr>
   \<and> snd (callTool sample_tools (sample_env (Inr sample_success))
        \<lparr>name = ''build_project'',
         arguments = Some (JObject [(''projectDir'', JString ''/tmp/proj'')])\<rparr>) =
       Inr \<lparr>content = [Text ''Linking firmware.elf''], isError = None\<rparr>"
proof -
  have unknown: "''flash'' \<notin> set tool_names"
    by (simp add: tool_names_def)
  have parse: "BuildProjectParamsSchema (Some (JObject [(''projectDir'', JString ''/tmp/../etc'')]))
      = Inr (''/tmp/../etc'', None)"
    by (simp add: BuildProjectParamsSchema_def z_object_def z_string_min1_def z_optional_def
        and_then_def)
  have thrown: "snd (buildProject (sample_env (Inr sample_success)) ''/tmp/../etc'' None) =
      Inl (Foreign True ''Invalid path: /tmp/../etc''
             ''ValidationError: Invalid path: /tmp/../etc'')"
    by (simp add: buildProject_shape shape_simps sample_simps)
  have noargs: "BuildProjectParamsSchema None = Inl (ZodError ''object'')"
    by (simp add: BuildProjectParamsSchema_def z_object_def)
  have fmt: "formatPlatformIOError sample_tools = message"
    by (simp add: sample_tools_def)
  have r1: "snd (callTool sample_tools (sample_env (Inr sample_success))
        \<lparr>name = ''flash'', arguments = None\<rparr>) =
       Inr \<lparr>content = [Text ''Error: Unknown tool: flash''], isError = Some True\<rparr>"
    using callTool_always_responds [where T = sample_tools
        and E = "sample_env (Inr sample_success)"
        and req = "\<lparr>name = ''flash'', arguments = None\<rparr>"] unknown
    by (simp add: fmt)
  have r2: "snd (callTool sample_tools (sample_env (Inr sample_success))
        \<lparr>name = ''build_project'',
         arguments = Some (JObject [(''projectDir'', JString ''/tmp/../etc'')])\<rparr>) =
       Inr \<lparr>content = [Text ''Error: Invalid path: /tmp/../etc''], isError = Some True\<rparr>"
    using callTool_always_responds [where T = sample_tools
        and E = "sample_env (Inr sample_success)"
        and req = "\<lparr>name = ''build_project'',
          arguments = Some (JObject [(''projectDir'', JString ''/tmp/../etc'')])\<rparr>"]
      parse thrown
    by (simp add: fmt)
  have r3: "snd (callTool sample_tools (sample_env (Inr sample_success))
        \<lparr>name = ''build_project'', arguments = None\<rparr>) =
       Inr \<lparr>content = [Text ''Error: object''], isError = Some True\<rparr>"
    using callTool_always_responds [where T = sample_tools
        and E = "sample_env (Inr sample_success)"
        and req = "\<lparr>name = ''build_project'', arguments = None\<rparr>"] noargs
    by (simp add: fmt)
  have r4: "snd (callTool sample_tools (sample_env (Inr sample_success))
        \<lparr>name = ''build_project'',
         arguments = Some (JObject [(''projectDir'', JString ''/tmp/proj'')])\<rparr>) =
       Inr \<lparr>content = [Text ''Linking firmware.elf''], isError = None\<rparr>"
    by (simp add: callTool_cases dispatch_build_project parsed_def io_bind_pair respond_def
        io_return_def BuildProjectParamsSchema_def z_object_def z_string_min1_def z_optional_def
        and_then_def buildProject_shape shape_simps buildResult_def sample_tools_def sample_simps)
  from unknown parse thrown noargs r1 r2 r3 r4 show ?thesis
    by simp
qed

section \<open>The limit of a library search\<close>

text \<open>
  C10. A \<open>search_libraries\<close> request whose arguments have no \<open>limit\<close> is parsed with the
  limit 20, which is positive, and \<open>searchLibraries\<close> is called with the query and 20; a
  request whose \<open>limit\<close> is a number is parsed with that number, and \<open>searchLibraries\<close> is
  called with it unchanged.
\<close>

theorem search_libraries_limit:
  assumes "map_of kvs ''query'' = Some (JString q)" and "q \<noteq> []"
  shows "(map_of kvs ''limit'' = None \<longrightarrow>
            SearchLibrariesParamsSchema (Some (JObject kvs)) = Inr (q, 20)
            \<and> (0::real) < 20
            \<and> dispatch T E \<lparr>name = ''search_libraries'', arguments = Some (JObject kvs)\<rparr> =
                io_bind (searchLibraries T q 20)
                  (\<lambda>libraries. respond T (OtherValue libraries)))
    \<and> (\<forall>n. map_of kvs ''limit'' = Some (JNumber n) \<longrightarrow>
            SearchLibrariesParamsSchema (Some (JObject kvs)) = Inr (q, n)
            \<and> dispatch T E \<lparr>name = ''search_libraries'', arguments = Some (JObject kvs)\<rparr> =
                io_bind (searchLibraries T q n)
                  (\<lambda>libraries. respond T (OtherValue libraries)))"
proof -
  have d: "dispatch T E \<lparr>name = ''search_libraries'', arguments = Some (JObject kvs)\<rparr> =
      io_bind (parsed (SearchLibrariesParamsSchema (Some (JObject kvs)))) (\<lambda>(query, limit).
      io_bind (searchLibraries T query limit) (\<lambda>libraries. respond T (OtherValue libraries)))"
    by (simp add: dispatch_def Let_def)
  have absent: "SearchLibrariesParamsSchema (Some (JObject kvs)) = Inr (q, 20)"
    if "map_of kvs ''limit'' = None"
    using that assms
    by (simp add: SearchLibrariesParamsSchema_def z_object_def z_string_min1_def z_default_def
        and_then_def Suc_le_eq)
  have given: "SearchLibrariesParamsSchema (Some (JObject kvs)) = Inr (q, n)"
    if "map_of kvs ''limit'' = Some (JNumber n)" for n
    using that assms
    by (simp add: SearchLibrariesParamsSchema_def z_object_def z_string_min1_def z_default_def
        z_optional_def z_number_def and_then_def Suc_le_eq)
  show ?thesis
    using absent given by (auto simp: d parsed_def io_bind_pair)
qed

theorem search_libraries_limit_witness:
  "map_of [(''query'', JString ''wifi'')] ''query'' = Some (JString ''wifi'')
   \<and> ''wifi'' \<noteq> []
   \<and> map_of [(''query'', JString ''wifi'')] ''limit'' = None
   \<and> SearchLibrariesParamsSchema (Some (JObject [(''query'', JString ''wifi'')])) =
       Inr (''wifi'', 20)
   \<and> map_of [(''query'', JString ''wifi''), (''limit'', JNumber 10)] ''limit''
       = Some (JNumber 10)
   \<and> SearchLibrariesParamsSchema
        (Some (JObject [(''query'', JString ''wifi''), (''limit'', JNumber 10)])) =
       Inr (''wifi'', 10)"
  using search_libraries_limit [where kvs = "[(''query'', JString ''wifi'')]" and q = "''wifi''"
      and T = sample_tools and E = "sample_env (Inr sample_success)"]
    search_libraries_limit [where kvs = "[(''query'', JString ''wifi''), (''limit'', JNumber 10)]"
      and q = "''wifi''" and T = sample_tools and E = "sample_env (Inr sample_success)"]
  by simp


end
